theory Spec2Isabelle
  imports Main "HOL-Library.AList"
begin

section \<open>JavaScript values used by the smart building client\<close>

text \<open>
  The client of \<^verbatim>\<open>src/smart_building/smart_building.ts\<close> receives text frames, parses
  them with \<^verbatim>\<open>JSON.parse\<close> and reads a few members of the result. A parsed frame is a
  \<open>json\<close> value; an object keeps its members in the order of the text, a later
  duplicate shadowing an earlier one. \<open>None\<close> of type \<open>jsvalue\<close> is JavaScript's
  \<^verbatim>\<open>undefined\<close>. Numbers are the integer-valued ones; \<open>NaN\<close> is kept apart because
  it is falsy.
\<close>

datatype json =
    JNull
  | JBool bool
  | JNum int
  | JStr string
  | JArr "json list"
  | JObj "(string \<times> json) list"

type_synonym jsvalue = "json option"

datatype number = Num int | NaN

datatype exn =
    SyntaxError
  | TypeError
  | Thrown string
  | TransportError string

datatype outcome = Returned | Threw exn

text \<open>
  Reading a member of \<^verbatim>\<open>null\<close> or \<^verbatim>\<open>undefined\<close> throws a TypeError; every
  other value is object-coercible.
\<close>

definition coercible :: "jsvalue \<Rightarrow> bool" where
  "coercible v = (v \<noteq> None \<and> v \<noteq> Some JNull)"

text \<open>
  \<open>get_member k v\<close> is \<^verbatim>\<open>v.k\<close> for an object-coercible \<open>v\<close> and one of the
  member names the client reads (\<^verbatim>\<open>type\<close>, \<^verbatim>\<open>data\<close>, \<^verbatim>\<open>action\<close>,
  \<^verbatim>\<open>playerID\<close>, \<^verbatim>\<open>playerName\<close>, \<^verbatim>\<open>actionID\<close>, \<^verbatim>\<open>payload\<close>,
  \<^verbatim>\<open>payment\<close>): none of them is inherited from a built-in prototype, so an object
  yields its own member and every other value yields \<^verbatim>\<open>undefined\<close>.
\<close>

fun get_member :: "string \<Rightarrow> jsvalue \<Rightarrow> jsvalue" where
  "get_member k (Some (JObj kvs)) = map_of (rev kvs) k"
| "get_member k v = None"

text \<open>
  Conversion of a value to a string, as a computed member access and a template literal
  do it; \<open>None\<close> when the conversion throws a TypeError. The text of a number is the
  platform's (\<open>ns\<close>). An object is converted by its \<^verbatim>\<open>toString\<close>: the inherited
  one gives \<^verbatim>\<open>[object Object]\<close>; an own member \<^verbatim>\<open>toString\<close> of a parsed object is
  never a function, and then \<^verbatim>\<open>valueOf\<close> yields no primitive either (an own one is no
  function, the inherited one returns the object), so the conversion throws. An array
  joins the conversions of its elements with commas, \<^verbatim>\<open>null\<close> elements giving the
  empty string, and throws when one of them does.
\<close>

fun to_string :: "(int \<Rightarrow> string) \<Rightarrow> json \<Rightarrow> string option"
  and join_elems :: "(int \<Rightarrow> string) \<Rightarrow> json list \<Rightarrow> string option" where
  "to_string ns JNull = Some ''null''"
| "to_string ns (JBool v) = Some (if v then ''true'' else ''false'')"
| "to_string ns (JNum n) = Some (ns n)"
| "to_string ns (JStr s) = Some s"
| "to_string ns (JArr xs) = join_elems ns xs"
| "to_string ns (JObj kvs) =
     (if ''toString'' \<in> set (map fst kvs) then None else Some ''[object Object]'')"
| "join_elems ns [] = Some []"
| "join_elems ns [x] = (if x = JNull then Some [] else to_string ns x)"
| "join_elems ns (x # y # ys) =
     (case (if x = JNull then Some [] else to_string ns x) of
        None \<Rightarrow> None
      | Some s \<Rightarrow>
          (case join_elems ns (y # ys) of
             None \<Rightarrow> None
           | Some r \<Rightarrow> Some (s @ '','' @ r)))"

section \<open>Plain objects used as dictionaries\<close>

text \<open>
  \<^verbatim>\<open>actionHandlers\<close> and the accumulator of the announcement are object literals
  \<^verbatim>\<open>{}\<close>. Such an object has its own properties, in creation order, and a
  prototype: \<^verbatim>\<open>Object.prototype\<close> (\<open>proto = None\<close>) until an assignment to the
  key \<^verbatim>\<open>__proto__\<close> replaces it by the assigned object (\<open>proto = Some v\<close>).
\<close>

record 'v jsobj =
  own :: "(string \<times> 'v) list"
  proto :: "'v option"

definition empty_obj :: "'v jsobj" where
  "empty_obj = \<lparr>own = [], proto = None\<rparr>"

text \<open>
  \<^verbatim>\<open>obj[k] = v\<close>: the setter of \<^verbatim>\<open>__proto__\<close> inherited from
  \<^verbatim>\<open>Object.prototype\<close> changes the prototype and creates no property; every other
  key overwrites the own property in place or appends a new one.
\<close>

definition obj_set :: "string \<Rightarrow> 'v \<Rightarrow> 'v jsobj \<Rightarrow> 'v jsobj" where
  "obj_set k v obj =
     (if k = ''__proto__'' then obj\<lparr>proto := Some v\<rparr>
      else obj\<lparr>own := AList.update k v (own obj)\<rparr>)"

definition is_digit :: "char \<Rightarrow> bool" where
  "is_digit c = (48 \<le> (of_char c :: nat) \<and> (of_char c :: nat) \<le> 57)"

definition digits_value :: "string \<Rightarrow> nat" where
  "digits_value s = foldl (\<lambda>acc c. 10 * acc + ((of_char c :: nat) - 48)) 0 s"

text \<open>An array index is a canonical decimal numeral below \<open>2^32 - 1\<close>.\<close>

definition is_array_index :: "string \<Rightarrow> bool" where
  "is_array_index s =
     (s \<noteq> [] \<and> list_all is_digit s \<and> (s = ''0'' \<or> hd s \<noteq> CHR ''0'')
      \<and> digits_value s < 2 ^ 32 - 1)"

text \<open>
  The own properties in the order in which \<^verbatim>\<open>Object.keys\<close> and
  \<^verbatim>\<open>JSON.stringify\<close> visit them: those whose key is an array index in ascending
  numeric order, then the others in creation order.
\<close>

definition obj_entries :: "'v jsobj \<Rightarrow> (string \<times> 'v) list" where
  "obj_entries obj =
     sort_key (\<lambda>p. digits_value (fst p)) (filter (\<lambda>p. is_array_index (fst p)) (own obj))
       @ filter (\<lambda>p. \<not> is_array_index (fst p)) (own obj)"

definition obj_keys :: "'v jsobj \<Rightarrow> string list" where
  "obj_keys obj = map fst (obj_entries obj)"

section \<open>The action registry\<close>

text \<open>
  A function value is known by a name and its declared parameter count
  (\<^verbatim>\<open>Function.length\<close>); what its body does is the environment's.
\<close>

record jsfunc =
  func_name :: string
  func_length :: nat

record ActionHandler =
  func :: jsfunc
  payloadDescription :: string
  paymentDescription :: string

record ActionConfig =
  cfg_action :: string
  cfg_payloadDescription :: "string option"
  cfg_paymentDescription :: "string option"

text \<open>\<^verbatim>\<open>s || d\<close> for an optional string: absent and empty are both falsy.\<close>

definition string_or :: "string option \<Rightarrow> string \<Rightarrow> string" where
  "string_or s d = (case s of None \<Rightarrow> d | Some t \<Rightarrow> if t = [] then d else t)"

definition falsy_number :: "number \<Rightarrow> bool" where
  "falsy_number n = (n = Num 0 \<or> n = NaN)"

definition number_or :: "number option \<Rightarrow> number \<Rightarrow> number" where
  "number_or n d = (case n of None \<Rightarrow> d | Some m \<Rightarrow> if falsy_number m then d else m)"

text \<open>
  What \<^verbatim>\<open>this.actionHandlers[name]\<close> evaluates to: a registered entry, or one of the
  values reachable through the prototype chain.
\<close>

datatype handler_value =
    HUndefined
  | HEntry ActionHandler
  | HFunction jsfunc
  | HString string
  | HBuiltin string
  | HObjectPrototype

text \<open>The function-valued properties of \<^verbatim>\<open>Object.prototype\<close>.\<close>

definition object_prototype_functions :: "string list" where
  "object_prototype_functions =
     [''constructor'', ''__defineGetter__'', ''__defineSetter__'', ''hasOwnProperty'',
      ''__lookupGetter__'', ''__lookupSetter__'', ''isPrototypeOf'',
      ''propertyIsEnumerable'', ''toString'', ''valueOf'', ''toLocaleString'']"

definition inherited :: "string \<Rightarrow> handler_value" where
  "inherited k = (if k \<in> set object_prototype_functions then HBuiltin k else HUndefined)"

definition get_handler :: "ActionHandler jsobj \<Rightarrow> string \<Rightarrow> handler_value" where
  "get_handler obj k =
     (case map_of (own obj) k of
        Some e \<Rightarrow> HEntry e
      | None \<Rightarrow>
          (case proto obj of
             Some e \<Rightarrow>
               if k = ''__proto__'' then HEntry e
               else if k = ''func'' then HFunction (func e)
               else if k = ''payloadDescription'' then HString (payloadDescription e)
               else if k = ''paymentDescription'' then HString (paymentDescription e)
               else inherited k
           | None \<Rightarrow> if k = ''__proto__'' then HObjectPrototype else inherited k))"

text \<open>\<^verbatim>\<open>if (handler)\<close>: only \<^verbatim>\<open>undefined\<close> and the empty string are falsy here.\<close>

fun truthy :: "handler_value \<Rightarrow> bool" where
  "truthy HUndefined = False"
| "truthy (HString s) = (s \<noteq> [])"
| "truthy h = True"

text \<open>
  \<^verbatim>\<open>handler.func\<close>: the entry's function; \<^verbatim>\<open>undefined\<close> (\<open>None\<close>) on a string,
  a function or \<^verbatim>\<open>Object.prototype\<close>, none of which has such a member.
\<close>

fun handler_func :: "handler_value \<Rightarrow> jsfunc option" where
  "handler_func (HEntry e) = Some (func e)"
| "handler_func h = None"

section \<open>The client's state and its effects\<close>

type_synonym socket = nat

record SmartBuilding =
  apiKey :: string
  buildingId :: number
  players :: jsvalue
  buildingInfo :: jsvalue
  wsEndpoint :: string
  ws :: "socket option"
  reconnectInterval :: number
  actionHandlers :: "ActionHandler jsobj"

record Options =
  opt_apiKey :: string
  opt_buildingId :: number
  opt_wsEndpoint :: "string option"
  opt_reconnectInterval :: "number option"

text \<open>
  Modelled from the spec: the class \<^verbatim>\<open>ActionContext\<close> of \<^verbatim>\<open>./context\<close> is not
  among the sources; the spec describes it as a reply capability bound to the player,
  the action invocation and the current connection. Its constructor stores its
  arguments; the building itself (\<^verbatim>\<open>this\<close>) is what the called function runs on.
\<close>

record ActionContext =
  ctx_playerId :: jsvalue
  ctx_playerName :: jsvalue
  ctx_ws :: "socket option"
  ctx_actionId :: jsvalue
  ctx_actionName :: jsvalue

text \<open>
  \<^verbatim>\<open>new ActionContext(playerID, playerName, this, this.ws, actionID, actionName)\<close>.
\<close>

definition new_ActionContext ::
  "jsvalue \<Rightarrow> jsvalue \<Rightarrow> socket option \<Rightarrow> jsvalue \<Rightarrow> jsvalue \<Rightarrow> ActionContext" where
  "new_ActionContext playerID playerName sock actionID actionName =
     \<lparr>ctx_playerId = playerID, ctx_playerName = playerName, ctx_ws = sock,
      ctx_actionId = actionID, ctx_actionName = actionName\<rparr>"

text \<open>
  What the client does to the outside. \<open>SetTimeout d callback\<close> is
  \<^verbatim>\<open>setTimeout(callback, d)\<close>: the callback is kept as what it does, when the platform
  runs it, to the building as it then is; its first argument is the socket that a
  \<^verbatim>\<open>new WebSocket\<close> in it returns.
\<close>

datatype effect =
    ConsoleLog string
  | ConsoleWarn string
  | ConsoleError string exn
  | Emit string "jsvalue list"
  | Invoke jsfunc ActionContext "jsvalue list"
  | NewWebSocket socket string
  | Send socket string
  | CloseSocket socket
  | SetTimeout number "socket \<Rightarrow> SmartBuilding \<Rightarrow> SmartBuilding \<times> effect list"

text \<open>
  What the client does not define itself: the constant \<^verbatim>\<open>DEFAULT_WS_ENDPOINT\<close> of
  \<^verbatim>\<open>../common/const\<close>, the platform's \<^verbatim>\<open>JSON.parse\<close> (\<open>None\<close> when it throws a
  SyntaxError), \<^verbatim>\<open>JSON.stringify\<close> and number formatting, and the code supplied by
  the caller: the bodies of the registered functions and the listeners of the
  notifications. Caller code runs on the building, may assign its fields, and returns
  or throws.
\<close>

record environment =
  DEFAULT_WS_ENDPOINT :: string
  json_parse :: "string \<Rightarrow> json option"
  json_stringify :: "json \<Rightarrow> string"
  number_to_string :: "number \<Rightarrow> string"
  call_function ::
    "jsfunc \<Rightarrow> ActionContext \<Rightarrow> jsvalue list \<Rightarrow> SmartBuilding \<Rightarrow> outcome \<times> SmartBuilding"
  emit_listeners :: "string \<Rightarrow> jsvalue list \<Rightarrow> SmartBuilding \<Rightarrow> outcome \<times> SmartBuilding"

text \<open>
  The property key of \<^verbatim>\<open>this.actionHandlers[actionName]\<close>, and the text of
  \<^verbatim>\<open>${actionName}\<close>; \<open>None\<close> when the conversion throws a TypeError.
\<close>

definition to_property_key :: "environment \<Rightarrow> jsvalue \<Rightarrow> string option" where
  "to_property_key env v =
     (case v of
        None \<Rightarrow> Some ''undefined''
      | Some j \<Rightarrow> to_string (\<lambda>n. number_to_string env (Num n)) j)"

section \<open>Construction and registration\<close>

definition constructor :: "environment \<Rightarrow> Options \<Rightarrow> SmartBuilding" where
  "constructor env options =
     \<lparr>apiKey = opt_apiKey options,
      buildingId = opt_buildingId options,
      players = Some (JArr []),
      buildingInfo = Some (JObj []),
      wsEndpoint = string_or (opt_wsEndpoint options) (DEFAULT_WS_ENDPOINT env),
      ws = None,
      reconnectInterval = number_or (opt_reconnectInterval options) (Num 5000),
      actionHandlers = empty_obj\<rparr>"

definition action :: "ActionConfig \<Rightarrow> jsfunc \<Rightarrow> SmartBuilding \<Rightarrow> SmartBuilding" where
  "action config handler b =
     b\<lparr>actionHandlers :=
         obj_set (cfg_action config)
           \<lparr>func = handler,
            payloadDescription = string_or (cfg_payloadDescription config) [],
            paymentDescription = string_or (cfg_paymentDescription config) []\<rparr>
           (actionHandlers b)\<rparr>"

text \<open>A sequence of registrations, in order.\<close>

definition register_all ::
  "(ActionConfig \<times> jsfunc) list \<Rightarrow> SmartBuilding \<Rightarrow> SmartBuilding" where
  "register_all regs b = fold (\<lambda>(config, handler). action config handler) regs b"

section \<open>The connection\<close>

definition ws_uri :: "environment \<Rightarrow> SmartBuilding \<Rightarrow> string" where
  "ws_uri env b =
     wsEndpoint b @ ''?type=building&api-key='' @ apiKey b @ ''&building-id=''
       @ number_to_string env (buildingId b)"

text \<open>
  \<^verbatim>\<open>connect()\<close>: \<open>sock\<close> is the socket that \<^verbatim>\<open>new WebSocket(wsUri)\<close> returns. The
  four listeners registered on it are \<open>on_open\<close>, \<open>on_message\<close>, \<open>on_close\<close> and
  \<open>on_error\<close> below; their bodies read \<^verbatim>\<open>this.ws\<close>, not the socket they are
  registered on.
\<close>

definition connect :: "environment \<Rightarrow> socket \<Rightarrow> SmartBuilding \<Rightarrow> SmartBuilding \<times> effect list" where
  "connect env sock b = (b\<lparr>ws := Some sock\<rparr>, [NewWebSocket sock (ws_uri env b)])"

definition run :: "environment \<Rightarrow> socket \<Rightarrow> SmartBuilding \<Rightarrow> SmartBuilding \<times> effect list" where
  "run env sock b = connect env sock b"

text \<open>
  The announcement: the \<^verbatim>\<open>reduce\<close> over \<^verbatim>\<open>Object.keys(this.actionHandlers)\<close>. A
  key of that list is an own property, so the lookup is an entry; the other case of
  the step is never taken (lemma \<open>get_handler_own\<close>).
\<close>

definition serialize_step ::
  "ActionHandler jsobj \<Rightarrow> string \<Rightarrow> (string \<times> string) jsobj \<Rightarrow> (string \<times> string) jsobj" where
  "serialize_step handlers actionName acc =
     (case get_handler handlers actionName of
        HEntry handler \<Rightarrow>
          obj_set actionName (payloadDescription handler, paymentDescription handler) acc
      | _ \<Rightarrow> acc)"

definition serialize :: "ActionHandler jsobj \<Rightarrow> (string \<times> string) jsobj" where
  "serialize handlers = fold (serialize_step handlers) (obj_keys handlers) empty_obj"

definition description_json :: "string \<times> string \<Rightarrow> json" where
  "description_json d = JObj [(''payload'', JStr (fst d)), (''payment'', JStr (snd d))]"

definition registerActionsMessage :: "ActionHandler jsobj \<Rightarrow> json" where
  "registerActionsMessage handlers =
     JObj [(''type'', JStr ''registerActions''),
           (''data'',
            JObj [(''actions'',
                   JObj (map (\<lambda>(k, d). (k, description_json d))
                          (obj_entries (serialize handlers))))])]"

definition on_open :: "environment \<Rightarrow> SmartBuilding \<Rightarrow> outcome \<times> SmartBuilding \<times> effect list" where
  "on_open env b =
     (let message = json_stringify env (registerActionsMessage (actionHandlers b));
          sent = (case ws b of None \<Rightarrow> [] | Some sock \<Rightarrow> [Send sock message]);
          (out, b') = emit_listeners env ''ready'' [] b
      in (out, b',
          [ConsoleLog ''WebSocket connection established.''] @ sent @ [Emit ''ready'' []]))"


definition on_error :: "exn \<Rightarrow> SmartBuilding \<Rightarrow> outcome \<times> SmartBuilding \<times> effect list" where
  "on_error error b =
     (Returned, b,
      [ConsoleError ''WebSocket error:'' error]
        @ (case ws b of None \<Rightarrow> [] | Some sock \<Rightarrow> [CloseSocket sock]))"

section \<open>The message router\<close>

definition quoted :: "string \<Rightarrow> string" where
  "quoted s = [CHR 0x27] @ s @ [CHR 0x27]"

text \<open>
  The branch of \<^verbatim>\<open>handleMessage\<close> for \<^verbatim>\<open>msgType === 'action'\<close>; \<open>data\<close> is
  \<^verbatim>\<open>msg.data\<close>. Reading \<^verbatim>\<open>msg.data.action\<close> throws when \<open>data\<close> is not
  object-coercible; the lookup \<^verbatim>\<open>this.actionHandlers[actionName]\<close> throws when the
  name has no property key; and \<^verbatim>\<open>handler.func.length\<close> throws when
  \<^verbatim>\<open>handler.func\<close> is \<^verbatim>\<open>undefined\<close>.
\<close>

definition dispatch_action ::
  "environment \<Rightarrow> jsvalue \<Rightarrow> SmartBuilding \<Rightarrow> outcome \<times> SmartBuilding \<times> effect list" where
  "dispatch_action env data b =
     (if \<not> coercible data then (Threw TypeError, b, [])
      else
        let actionName = get_member ''action'' data in
          (case to_property_key env actionName of
             None \<Rightarrow> (Threw TypeError, b, [])
           | Some key \<Rightarrow>
               let handler = get_handler (actionHandlers b) key in
                 if truthy handler then
                   let ctx = new_ActionContext (get_member ''playerID'' data)
                               (get_member ''playerName'' data) (ws b)
                               (get_member ''actionID'' data) actionName;
                       payload = get_member ''payload'' data;
                       payment = get_member ''payment'' data
                   in
                     (case handler_func handler of
                        None \<Rightarrow> (Threw TypeError, b, [])
                      | Some f \<Rightarrow>
                          if func_length f = 2 then
                            (let (out, b') = call_function env f ctx [payload] b
                             in (out, b', [Invoke f ctx [payload]]))
                          else if func_length f = 3 then
                            (let (out, b') = call_function env f ctx [payload, payment] b
                             in (out, b', [Invoke f ctx [payload, payment]]))
                          else
                            (Returned, b,
                             [ConsoleWarn (''Handler for action '' @ quoted key
                                @ '' has an unexpected number of parameters'')]))
                 else
                   (Returned, b, [ConsoleWarn (''No handler for action '' @ quoted key)])))"

text \<open>The body of the \<^verbatim>\<open>try\<close> block of \<^verbatim>\<open>handleMessage\<close>.\<close>

definition handleMessage_try ::
  "environment \<Rightarrow> string \<Rightarrow> SmartBuilding \<Rightarrow> outcome \<times> SmartBuilding \<times> effect list" where
  "handleMessage_try env message b =
     (case json_parse env message of
        None \<Rightarrow> (Threw SyntaxError, b, [])
      | Some msg \<Rightarrow>
          if \<not> coercible (Some msg) then (Threw TypeError, b, [])
          else
            let msgType = get_member ''type'' (Some msg) in
              if msgType = Some (JStr ''building'') then
                (let b1 = b\<lparr>buildingInfo := get_member ''data'' (Some msg)\<rparr>;
                     (out, b2) = emit_listeners env ''buildingInfo'' [buildingInfo b1] b1
                 in (out, b2, [Emit ''buildingInfo'' [buildingInfo b1]]))
              else if msgType = Some (JStr ''players'') then
                (let b1 = b\<lparr>players := get_member ''data'' (Some msg)\<rparr>;
                     (out, b2) = emit_listeners env ''players'' [players b1] b1
                 in (out, b2, [Emit ''players'' [players b1]]))
              else if msgType = Some (JStr ''action'') then
                dispatch_action env (get_member ''data'' (Some msg)) b
              else (Returned, b, []))"

text \<open>\<^verbatim>\<open>handleMessage\<close>: the \<^verbatim>\<open>catch\<close> clause logs what the block threw.\<close>

definition handleMessage ::
  "environment \<Rightarrow> string \<Rightarrow> SmartBuilding \<Rightarrow> outcome \<times> SmartBuilding \<times> effect list" where
  "handleMessage env message b =
     (case handleMessage_try env message b of
        (Threw error, b', effects) \<Rightarrow>
          (Returned, b', effects @ [ConsoleError ''Failed to handle message:'' error])
      | (Returned, b', effects) \<Rightarrow> (Returned, b', effects))"

definition on_message ::
  "environment \<Rightarrow> string \<Rightarrow> SmartBuilding \<Rightarrow> outcome \<times> SmartBuilding \<times> effect list" where
  "on_message env data b = handleMessage env data b"

section \<open>Observations on effect lists\<close>

fun sent_messages :: "effect list \<Rightarrow> (socket \<times> string) list" where
  "sent_messages [] = []"
| "sent_messages (Send sock m # es) = (sock, m) # sent_messages es"
| "sent_messages (e # es) = sent_messages es"

fun invocations :: "effect list \<Rightarrow> (jsfunc \<times> ActionContext \<times> jsvalue list) list" where
  "invocations [] = []"
| "invocations (Invoke f ctx args # es) = (f, ctx, args) # invocations es"
| "invocations (e # es) = invocations es"

fun notifications :: "effect list \<Rightarrow> (string \<times> jsvalue list) list" where
  "notifications [] = []"
| "notifications (Emit name args # es) = (name, args) # notifications es"
| "notifications (e # es) = notifications es"

fun warnings :: "effect list \<Rightarrow> string list" where
  "warnings [] = []"
| "warnings (ConsoleWarn w # es) = w # warnings es"
| "warnings (e # es) = warnings es"

fun logged_errors :: "effect list \<Rightarrow> exn list" where
  "logged_errors [] = []"
| "logged_errors (ConsoleError label x # es) = x # logged_errors es"
| "logged_errors (e # es) = logged_errors es"


fun opened_sockets :: "effect list \<Rightarrow> socket list" where
  "opened_sockets [] = []"
| "opened_sockets (NewWebSocket sock uri # es) = sock # opened_sockets es"
| "opened_sockets (e # es) = opened_sockets es"

text \<open>The \<^verbatim>\<open>type\<close> and the \<^verbatim>\<open>data\<close> of a frame, when it parses.\<close>

definition frame_type :: "environment \<Rightarrow> string \<Rightarrow> jsvalue" where
  "frame_type env message =
     (case json_parse env message of
        None \<Rightarrow> None
      | Some msg \<Rightarrow> get_member ''type'' (Some msg))"

definition frame_data :: "environment \<Rightarrow> string \<Rightarrow> jsvalue" where
  "frame_data env message =
     (case json_parse env message of
        None \<Rightarrow> None
      | Some msg \<Rightarrow> get_member ''data'' (Some msg))"

text \<open>
  The registries the client can reach hold no own property \<^verbatim>\<open>__proto__\<close>, and no key
  twice: \<open>obj_set\<close> is the only writer.
\<close>

definition wf_obj :: "'v jsobj \<Rightarrow> bool" where
  "wf_obj obj = (distinct (map fst (own obj)) \<and> ''__proto__'' \<notin> set (map fst (own obj)))"

text \<open>Caller code that assigns no field of the building.\<close>

definition inert :: "environment \<Rightarrow> bool" where
  "inert env =
     ((\<forall>f ctx args b. snd (call_function env f ctx args b) = b)
      \<and> (\<forall>name args b. snd (emit_listeners env name args b) = b))"

section \<open>An example environment\<close>

text \<open>
  A small platform for running the client on concrete frames: the parser knows the
  frames below and rejects every other text; the serializer escapes the double quote
  and the backslash.
\<close>

fun decimal :: "nat \<Rightarrow> string" where
  "decimal n =
     (if n < 10 then [char_of (48 + n)] else decimal (n div 10) @ [char_of (48 + n mod 10)])"

definition example_number_to_string :: "number \<Rightarrow> string" where
  "example_number_to_string x =
     (case x of
        NaN \<Rightarrow> ''NaN''
      | Num n \<Rightarrow> if n < 0 then ''-'' @ decimal (nat (- n)) else decimal (nat n))"

definition escape_char :: "char \<Rightarrow> string" where
  "escape_char c =
     (if c = CHR 0x22 then [CHR 0x5C, CHR 0x22]
      else if c = CHR 0x5C then [CHR 0x5C, CHR 0x5C]
      else [c])"

fun show_json :: "json \<Rightarrow> string"
  and show_elems :: "json list \<Rightarrow> string"
  and show_members :: "(string \<times> json) list \<Rightarrow> string" where
  "show_json JNull = ''null''"
| "show_json (JBool v) = (if v then ''true'' else ''false'')"
| "show_json (JNum n) = example_number_to_string (Num n)"
| "show_json (JStr s) = [CHR 0x22] @ concat (map escape_char s) @ [CHR 0x22]"
| "show_json (JArr xs) = ''['' @ show_elems xs @ '']''"
| "show_json (JObj kvs) = ''{'' @ show_members kvs @ ''}''"
| "show_elems [] = []"
| "show_elems [x] = show_json x"
| "show_elems (x # y # ys) = show_json x @ '','' @ show_elems (y # ys)"
| "show_members [] = []"
| "show_members [(k, v)] =
     [CHR 0x22] @ concat (map escape_char k) @ [CHR 0x22] @ '':'' @ show_json v"
| "show_members ((k, v) # p # ps) =
     [CHR 0x22] @ concat (map escape_char k) @ [CHR 0x22] @ '':'' @ show_json v @ '',''
       @ show_members (p # ps)"

definition frame_echo :: string where
  \<open>frame_echo =
     ''{"type":"action","data":{"action":"echo","playerID":1,"playerName":"A","actionID":"x1","payload":{"content":"hi"}}}''\<close>

definition frame_purchase :: string where
  \<open>frame_purchase =
     ''{"type":"action","data":{"action":"purchase","playerID":2,"playerName":"B","actionID":"x2","payload":{"content":"tea"},"payment":1}}''\<close>

definition frame_status :: string where
  \<open>frame_status = ''{"type":"action","data":{"action":"status","actionID":"x3"}}''\<close>

definition frame_fail :: string where
  \<open>frame_fail = ''{"type":"action","data":{"action":"fail","actionID":"x4"}}''\<close>

definition frame_constructor :: string where
  \<open>frame_constructor = ''{"type":"action","data":{"action":"constructor"}}''\<close>

definition frame_missing :: string where
  \<open>frame_missing = ''{"type":"action","data":{"action":"missing"}}''\<close>

definition frame_proto :: string where
  \<open>frame_proto = ''{"type":"action","data":{"action":"__proto__","actionID":"x5"}}''\<close>

definition frame_named_by_object :: string where
  \<open>frame_named_by_object = ''{"type":"action","data":{"action":{"toString":1}}}''\<close>

definition frame_no_data :: string where
  \<open>frame_no_data = ''{"type":"action"}''\<close>

definition frame_players :: string where
  \<open>frame_players = ''{"type":"players","data":[{"name":"A"}]}''\<close>

definition frame_building :: string where
  \<open>frame_building = ''{"type":"building","data":{"name":"Cafe"}}''\<close>

definition frame_chat :: string where
  \<open>frame_chat = ''{"type":"chat","data":"hello"}''\<close>

definition frame_null :: string where
  "frame_null = ''null''"

definition frame_malformed :: string where
  \<open>frame_malformed = ''{"type":"players","data":[''\<close>

definition example_parse :: "string \<Rightarrow> json option" where
  "example_parse s =
     (if s = frame_echo then
        Some (JObj [(''type'', JStr ''action''),
                    (''data'', JObj [(''action'', JStr ''echo''), (''playerID'', JNum 1),
                                     (''playerName'', JStr ''A''), (''actionID'', JStr ''x1''),
                                     (''payload'', JObj [(''content'', JStr ''hi'')])])])
      else if s = frame_purchase then
        Some (JObj [(''type'', JStr ''action''),
                    (''data'', JObj [(''action'', JStr ''purchase''), (''playerID'', JNum 2),
                                     (''playerName'', JStr ''B''), (''actionID'', JStr ''x2''),
                                     (''payload'', JObj [(''content'', JStr ''tea'')]),
                                     (''payment'', JNum 1)])])
      else if s = frame_status then
        Some (JObj [(''type'', JStr ''action''),
                    (''data'', JObj [(''action'', JStr ''status''), (''actionID'', JStr ''x3'')])])
      else if s = frame_fail then
        Some (JObj [(''type'', JStr ''action''),
                    (''data'', JObj [(''action'', JStr ''fail''), (''actionID'', JStr ''x4'')])])
      else if s = frame_constructor then
        Some (JObj [(''type'', JStr ''action''),
                    (''data'', JObj [(''action'', JStr ''constructor'')])])
      else if s = frame_missing then
        Some (JObj [(''type'', JStr ''action''),
                    (''data'', JObj [(''action'', JStr ''missing'')])])
      else if s = frame_proto then
        Some (JObj [(''type'', JStr ''action''),
                    (''data'', JObj [(''action'', JStr ''__proto__''), (''actionID'', JStr ''x5'')])])
      else if s = frame_named_by_object then
        Some (JObj [(''type'', JStr ''action''),
                    (''data'', JObj [(''action'', JObj [(''toString'', JNum 1)])])])
      else if s = frame_no_data then
        Some (JObj [(''type'', JStr ''action'')])
      else if s = frame_players then
        Some (JObj [(''type'', JStr ''players''),
                    (''data'', JArr [JObj [(''name'', JStr ''A'')]])])
      else if s = frame_building then
        Some (JObj [(''type'', JStr ''building''),
                    (''data'', JObj [(''name'', JStr ''Cafe'')])])
      else if s = frame_chat then
        Some (JObj [(''type'', JStr ''chat''), (''data'', JStr ''hello'')])
      else if s = frame_null then Some JNull
      else None)"

definition echo_handler :: jsfunc where
  "echo_handler = \<lparr>func_name = ''echo'', func_length = 2\<rparr>"

definition purchase_handler :: jsfunc where
  "purchase_handler = \<lparr>func_name = ''purchase'', func_length = 3\<rparr>"

definition status_handler :: jsfunc where
  "status_handler = \<lparr>func_name = ''status'', func_length = 1\<rparr>"

definition failing_handler :: jsfunc where
  "failing_handler = \<lparr>func_name = ''fail'', func_length = 2\<rparr>"

text \<open>The registered functions return, but for \<open>failing_handler\<close>, which throws.\<close>

definition example_call ::
  "jsfunc \<Rightarrow> ActionContext \<Rightarrow> jsvalue list \<Rightarrow> SmartBuilding \<Rightarrow> outcome \<times> SmartBuilding" where
  "example_call f ctx args b =
     (if func_name f = ''fail'' then (Threw (Thrown ''boom''), b) else (Returned, b))"

definition example_env :: environment where
  "example_env =
     \<lparr>DEFAULT_WS_ENDPOINT = ''wss://default.example/ws'',
      json_parse = example_parse,
      json_stringify = show_json,
      number_to_string = example_number_to_string,
      call_function = example_call,
      emit_listeners = (\<lambda>name args b. (Returned, b))\<rparr>"

text \<open>The same platform with a listener that throws on every notification.\<close>

definition throwing_listener_env :: environment where
  "throwing_listener_env =
     example_env\<lparr>emit_listeners := (\<lambda>name args b. (Threw (Thrown ''listener''), b))\<rparr>"

definition example_options :: Options where
  "example_options =
     \<lparr>opt_apiKey = ''KEY'', opt_buildingId = Num 7,
      opt_wsEndpoint = None, opt_reconnectInterval = None\<rparr>"

definition echo_config :: ActionConfig where
  \<open>echo_config =
     \<lparr>cfg_action = ''echo'', cfg_payloadDescription = Some ''{"content": string}'',
      cfg_paymentDescription = None\<rparr>\<close>

definition purchase_config :: ActionConfig where
  \<open>purchase_config =
     \<lparr>cfg_action = ''purchase'', cfg_payloadDescription = Some ''{"content": string}'',
      cfg_paymentDescription = Some ''1''\<rparr>\<close>

definition status_config :: ActionConfig where
  "status_config =
     \<lparr>cfg_action = ''status'', cfg_payloadDescription = None, cfg_paymentDescription = None\<rparr>"

definition fail_config :: ActionConfig where
  "fail_config =
     \<lparr>cfg_action = ''fail'', cfg_payloadDescription = None, cfg_paymentDescription = None\<rparr>"

definition proto_config :: ActionConfig where
  "proto_config =
     \<lparr>cfg_action = ''__proto__'', cfg_payloadDescription = Some ''p'',
      cfg_paymentDescription = None\<rparr>"

text \<open>A building as the example program of the repository sets it up.\<close>

definition example_building :: SmartBuilding where
  "example_building =
     register_all
       [(echo_config, echo_handler), (purchase_config, purchase_handler),
        (status_config, status_handler), (fail_config, failing_handler)]
       (constructor example_env example_options)"

section \<open>Unfolding the examples\<close>

lemmas example_defs =
  example_env_def example_parse_def example_call_def example_options_def
  example_building_def register_all_def action_def constructor_def obj_set_def empty_obj_def
  string_or_def number_or_def
  echo_config_def purchase_config_def status_config_def fail_config_def proto_config_def
  echo_handler_def purchase_handler_def status_handler_def failing_handler_def
  frame_echo_def frame_purchase_def frame_status_def frame_fail_def frame_constructor_def
  frame_missing_def frame_proto_def frame_named_by_object_def frame_no_data_def
  frame_players_def frame_building_def frame_chat_def frame_null_def
  frame_malformed_def

lemmas router_defs =
  handleMessage_def handleMessage_try_def dispatch_action_def get_handler_def inherited_def
  object_prototype_functions_def to_property_key_def coercible_def new_ActionContext_def
  quoted_def

section \<open>Facts about plain objects and the announcement\<close>

lemma set_obj_entries: "set (obj_entries obj) = set (own obj)"
  by (auto simp: obj_entries_def)

lemma set_obj_keys: "set (obj_keys obj) = fst ` set (own obj)"
  by (simp add: obj_keys_def set_obj_entries)

lemma distinct_obj_keys:
  assumes "distinct (map fst (own obj))"
  shows "distinct (obj_keys obj)"
proof -
  let ?ixs = "filter (\<lambda>p. is_array_index (fst p)) (own obj)"
  let ?rest = "filter (\<lambda>p. \<not> is_array_index (fst p)) (own obj)"
  have d: "distinct (own obj)" and inj: "inj_on fst (set (own obj))"
    using assms by (simp_all add: distinct_map)
  have "distinct (map fst ?ixs)"
    using assms by (simp add: distinct_map_filter)
  then have "distinct (map fst (sort_key (\<lambda>p. digits_value (fst p)) ?ixs))"
    by (simp add: distinct_map)
  moreover have "distinct (map fst ?rest)"
    using assms by (simp add: distinct_map_filter)
  moreover have "fst ` set ?ixs \<inter> fst ` set ?rest = {}"
    by auto
  ultimately show ?thesis
    by (simp add: obj_keys_def obj_entries_def)
qed

lemma map_of_obj_entries:
  assumes "distinct (map fst (own obj))"
  shows "map_of (obj_entries obj) = map_of (own obj)"
proof -
  have "distinct (map fst (obj_entries obj))"
    using distinct_obj_keys [OF assms] by (simp add: obj_keys_def)
  then show ?thesis
    using assms by (simp add: map_of_inject_set set_obj_entries)
qed

lemma wf_obj_empty: "wf_obj empty_obj"
  by (simp add: wf_obj_def empty_obj_def)

lemma wf_obj_set: "wf_obj obj \<Longrightarrow> wf_obj (obj_set k v obj)"
  by (auto simp: wf_obj_def obj_set_def distinct_update dom_update)

lemma get_handler_own: "map_of (own h) k = Some e \<Longrightarrow> get_handler h k = HEntry e"
  by (simp add: get_handler_def)

lemma own_serialize_fold:
  assumes "\<forall>k \<in> set ks. k \<noteq> ''__proto__'' \<and> map_of (own h) k \<noteq> None"
  shows "map_of (own (fold (serialize_step h) ks acc)) k =
           (if k \<in> set ks
            then map_option (\<lambda>e. (payloadDescription e, paymentDescription e)) (map_of (own h) k)
            else map_of (own acc) k)
         \<and> proto (fold (serialize_step h) ks acc) = proto acc
         \<and> (distinct (map fst (own acc)) \<longrightarrow> distinct (map fst (own (fold (serialize_step h) ks acc))))"
  using assms
proof (induction ks arbitrary: acc)
  case Nil
  then show ?case by simp
next
  case (Cons x xs)
  from Cons.prems obtain e where e: "map_of (own h) x = Some e" and x: "x \<noteq> ''__proto__''"
    by auto
  have step: "serialize_step h x acc =
      acc\<lparr>own := AList.update x (payloadDescription e, paymentDescription e) (own acc)\<rparr>"
    using e x by (simp add: serialize_step_def get_handler_own obj_set_def)
  have rest: "\<forall>k \<in> set xs. k \<noteq> ''__proto__'' \<and> map_of (own h) k \<noteq> None"
    using Cons.prems by simp
  show ?case
    using Cons.IH [OF rest, of "serialize_step h x acc"] e
    by (auto simp: step update_conv' distinct_update)
qed

lemma serialize_lookup:
  assumes "''__proto__'' \<notin> fst ` set (own h)"
  shows "map_of (own (serialize h)) k =
           map_option (\<lambda>e. (payloadDescription e, paymentDescription e)) (map_of (own h) k)"
    and "proto (serialize h) = None"
    and "distinct (map fst (own (serialize h)))"
proof -
  have ks: "\<forall>k \<in> set (obj_keys h). k \<noteq> ''__proto__'' \<and> map_of (own h) k \<noteq> None"
    using assms by (force simp: set_obj_keys map_of_eq_None_iff)
  note f = own_serialize_fold [OF ks, of empty_obj]
  show "map_of (own (serialize h)) k =
           map_option (\<lambda>e. (payloadDescription e, paymentDescription e)) (map_of (own h) k)"
    using f [of k] by (auto simp: serialize_def empty_obj_def set_obj_keys map_of_eq_None_iff)
  show "proto (serialize h) = None"
    using f [of k] by (simp add: serialize_def empty_obj_def)
  show "distinct (map fst (own (serialize h)))"
    using f [of k] by (simp add: serialize_def empty_obj_def)
qed

section \<open>Facts about the router\<close>

lemma get_member_Some_coercible: "get_member k v = Some x \<Longrightarrow> coercible v"
  by (cases "(k, v)" rule: get_member.cases) (simp_all add: coercible_def)

lemma handleMessage_never_throws: "fst (handleMessage env message b) = Returned"
  by (simp add: handleMessage_def split: prod.splits outcome.splits)

lemma handleMessage_unparsed:
  "json_parse env message = None \<Longrightarrow>
   handleMessage env message b =
     (Returned, b, [ConsoleError ''Failed to handle message:'' SyntaxError])"
  by (simp add: handleMessage_def handleMessage_try_def)

lemma handleMessage_try_players:
  assumes "json_parse env message = Some msg"
    and "get_member ''type'' (Some msg) = Some (JStr ''players'')"
  shows "handleMessage_try env message b =
     (fst (emit_listeners env ''players'' [get_member ''data'' (Some msg)]
            (b\<lparr>players := get_member ''data'' (Some msg)\<rparr>)),
      snd (emit_listeners env ''players'' [get_member ''data'' (Some msg)]
            (b\<lparr>players := get_member ''data'' (Some msg)\<rparr>)),
      [Emit ''players'' [get_member ''data'' (Some msg)]])"
  using assms get_member_Some_coercible [OF assms(2)]
  by (simp add: handleMessage_try_def Let_def split: prod.splits)

lemma handleMessage_try_building:
  assumes "json_parse env message = Some msg"
    and "get_member ''type'' (Some msg) = Some (JStr ''building'')"
  shows "handleMessage_try env message b =
     (fst (emit_listeners env ''buildingInfo'' [get_member ''data'' (Some msg)]
            (b\<lparr>buildingInfo := get_member ''data'' (Some msg)\<rparr>)),
      snd (emit_listeners env ''buildingInfo'' [get_member ''data'' (Some msg)]
            (b\<lparr>buildingInfo := get_member ''data'' (Some msg)\<rparr>)),
      [Emit ''buildingInfo'' [get_member ''data'' (Some msg)]])"
  using assms get_member_Some_coercible [OF assms(2)]
  by (simp add: handleMessage_try_def Let_def split: prod.splits)

lemma handleMessage_try_action:
  assumes "json_parse env message = Some msg"
    and "get_member ''type'' (Some msg) = Some (JStr ''action'')"
  shows "handleMessage_try env message b =
           dispatch_action env (get_member ''data'' (Some msg)) b"
  using assms get_member_Some_coercible [OF assms(2)]
  by (simp add: handleMessage_try_def Let_def)

lemma handleMessage_try_other:
  assumes "json_parse env message = Some msg"
    and "get_member ''type'' (Some msg) \<noteq> Some (JStr ''building'')"
    and "get_member ''type'' (Some msg) \<noteq> Some (JStr ''players'')"
    and "get_member ''type'' (Some msg) \<noteq> Some (JStr ''action'')"
  shows "handleMessage_try env message b =
           (if coercible (Some msg) then (Returned, b, []) else (Threw TypeError, b, []))"
  using assms by (simp add: handleMessage_try_def Let_def)

lemma dispatch_entry:
  assumes "coercible data"
    and "to_property_key env (get_member ''action'' data) = Some key"
    and "get_handler (actionHandlers b) key = HEntry e"
  shows "dispatch_action env data b =
    (let ctx = new_ActionContext (get_member ''playerID'' data) (get_member ''playerName'' data)
                 (ws b) (get_member ''actionID'' data) (get_member ''action'' data);
         payload = get_member ''payload'' data;
         payment = get_member ''payment'' data
     in if func_length (func e) = 2 then
          (fst (call_function env (func e) ctx [payload] b),
           snd (call_function env (func e) ctx [payload] b),
           [Invoke (func e) ctx [payload]])
        else if func_length (func e) = 3 then
          (fst (call_function env (func e) ctx [payload, payment] b),
           snd (call_function env (func e) ctx [payload, payment] b),
           [Invoke (func e) ctx [payload, payment]])
        else (Returned, b,
              [ConsoleWarn (''Handler for action '' @ quoted key
                 @ '' has an unexpected number of parameters'')]))"
  using assms by (simp add: dispatch_action_def Let_def split: prod.splits)

section \<open>Facts about registration\<close>

lemma register_all_snoc:
  "register_all (regs @ [(config, f)]) b = action config f (register_all regs b)"
  by (simp add: register_all_def)

lemma ws_action: "ws (action config f b) = ws b"
  by (simp add: action_def)

lemma register_all_Nil: "register_all [] b = b"
  by (simp add: register_all_def)

lemma ws_register_all: "ws (register_all regs b) = ws b"
proof (induction regs rule: rev_induct)
  case Nil
  show ?case by (simp add: register_all_Nil)
next
  case (snoc x xs)
  obtain config f where "x = (config, f)" by (cases x)
  with snoc show ?case by (simp add: register_all_snoc ws_action)
qed

lemma wf_action: "wf_obj (actionHandlers b) \<Longrightarrow> wf_obj (actionHandlers (action config f b))"
  by (simp add: action_def wf_obj_set)

lemma wf_register_all:
  "wf_obj (actionHandlers b) \<Longrightarrow> wf_obj (actionHandlers (register_all regs b))"
proof (induction regs rule: rev_induct)
  case Nil
  then show ?case by (simp add: register_all_Nil)
next
  case (snoc x xs)
  obtain config f where "x = (config, f)" by (cases x)
  with snoc show ?case by (simp add: register_all_snoc wf_action)
qed

lemma wf_constructor: "wf_obj (actionHandlers (constructor env options))"
  by (simp add: constructor_def wf_obj_empty)

section \<open>Facts about the announcement\<close>

lemma map_of_rev_distinct: "distinct (map fst xs) \<Longrightarrow> map_of (rev xs) = map_of xs"
  by (rule map_of_inject_set [THEN iffD2]) (simp_all add: rev_map [symmetric])

lemma map_of_map_values: "map_of (map (\<lambda>(k, d). (k, f d)) xs) k = map_option f (map_of xs k)"
  by (induction xs) auto

lemma announced_actions:
  assumes "''__proto__'' \<notin> fst ` set (own h)"
  shows "get_member k (get_member ''actions'' (get_member ''data'' (Some (registerActionsMessage h)))) =
           map_option (\<lambda>e. JObj [(''payload'', JStr (payloadDescription e)),
                                  (''payment'', JStr (paymentDescription e))])
             (map_of (own h) k)"
proof -
  let ?acts = "map (\<lambda>(k, d). (k, description_json d)) (obj_entries (serialize h))"
  have d: "distinct (map fst (own (serialize h)))"
    by (rule serialize_lookup(3) [OF assms])
  have "map fst ?acts = obj_keys (serialize h)"
    by (simp add: obj_keys_def case_prod_unfold comp_def)
  then have "distinct (map fst ?acts)"
    using distinct_obj_keys [OF d] by simp
  then have "map_of (rev ?acts) k = map_of ?acts k"
    by (simp only: map_of_rev_distinct)
  also have "\<dots> = map_option description_json (map_of (obj_entries (serialize h)) k)"
    by (rule map_of_map_values)
  also have "\<dots> = map_option description_json (map_of (own (serialize h)) k)"
    by (simp add: map_of_obj_entries [OF d])
  also have "\<dots> = map_option (\<lambda>e. JObj [(''payload'', JStr (payloadDescription e)),
                                  (''payment'', JStr (paymentDescription e))])
             (map_of (own h) k)"
    by (simp add: serialize_lookup(1) [OF assms] option.map_comp comp_def description_json_def)
  finally show ?thesis
    by (simp add: registerActionsMessage_def)
qed

lemma announced_actions_case:
  assumes "''__proto__'' \<notin> fst ` set (own h)"
  shows "get_member k (get_member ''actions'' (get_member ''data''
                  (Some (registerActionsMessage h)))) =
               (case map_of (own h) k of
                  None \<Rightarrow> None
                | Some e \<Rightarrow>
                    Some (JObj [(''payload'', JStr (payloadDescription e)),
                                (''payment'', JStr (paymentDescription e))]))"
  by (simp only: announced_actions [OF assms]) (simp split: option.splits)

lemma sent_on_open:
  "sent_messages (snd (snd (on_open env b))) =
     (case ws b of
        None \<Rightarrow> []
      | Some sock \<Rightarrow> [(sock, json_stringify env (registerActionsMessage (actionHandlers b)))])"
  by (simp add: on_open_def Let_def split: prod.splits option.splits)

lemma own_action:
  "cfg_action config \<noteq> ''__proto__'' \<Longrightarrow>
   map_of (own (actionHandlers (action config f b))) k =
     (if k = cfg_action config
      then Some \<lparr>func = f,
                 payloadDescription = string_or (cfg_payloadDescription config) [],
                 paymentDescription = string_or (cfg_paymentDescription config) []\<rparr>
      else map_of (own (actionHandlers b)) k)"
  by (simp add: action_def obj_set_def update_conv')

lemma own_action_proto:
  "cfg_action config = ''__proto__'' \<Longrightarrow>
   own (actionHandlers (action config f b)) = own (actionHandlers b)"
  by (simp add: action_def obj_set_def)

lemma register_all_last:
  assumes "n \<noteq> ''__proto__''"
    and "filter (\<lambda>(c, f). cfg_action c = n) regs \<noteq> []"
  shows "map_of (own (actionHandlers (register_all regs b))) n =
           (case last (filter (\<lambda>(c, f). cfg_action c = n) regs) of
              (c, f) \<Rightarrow>
                Some \<lparr>func = f,
                      payloadDescription = string_or (cfg_payloadDescription c) [],
                      paymentDescription = string_or (cfg_paymentDescription c) []\<rparr>)"
  using assms(2)
proof (induction regs rule: rev_induct)
  case Nil
  then show ?case by simp
next
  case (snoc x xs)
  obtain c f where x: "x = (c, f)" by (cases x)
  show ?case
  proof (cases "cfg_action c = n")
    case True
    then show ?thesis
      using assms(1) by (simp add: x register_all_snoc own_action)
  next
    case False
    with snoc.prems have ne: "filter (\<lambda>(c, f). cfg_action c = n) xs \<noteq> []"
      by (simp add: x)
    have "map_of (own (actionHandlers (register_all (xs @ [x]) b))) n =
            map_of (own (actionHandlers (register_all xs b))) n"
    proof (cases "cfg_action c = ''__proto__''")
      case True
      then show ?thesis by (simp add: x register_all_snoc own_action_proto)
    next
      case False
      with \<open>cfg_action c \<noteq> n\<close> show ?thesis by (simp add: x register_all_snoc own_action)
    qed
    with snoc.IH [OF ne] False show ?thesis by (simp add: x)
  qed
qed

lemma last_registration_announced:
  assumes "n \<noteq> ''__proto__''"
    and "filter (\<lambda>(c, f). cfg_action c = n) regs \<noteq> []"
    and "wf_obj (actionHandlers b)"
  shows "get_member n (get_member ''actions'' (get_member ''data''
           (Some (registerActionsMessage (actionHandlers (register_all regs b)))))) =
         (case last (filter (\<lambda>(c, f). cfg_action c = n) regs) of
            (c, f) \<Rightarrow>
              Some (JObj [(''payload'', JStr (string_or (cfg_payloadDescription c) [])),
                          (''payment'', JStr (string_or (cfg_paymentDescription c) []))]))"
proof -
  have "wf_obj (actionHandlers (register_all regs b))"
    using assms(3) by (rule wf_register_all)
  then have "''__proto__'' \<notin> fst ` set (own (actionHandlers (register_all regs b)))"
    by (simp add: wf_obj_def)
  then show ?thesis
    by (simp add: announced_actions_case register_all_last [OF assms(1,2)] split: prod.splits)
qed

lemma example_registry:
  "actionHandlers example_building =
     \<lparr>own = [(''echo'', \<lparr>func = echo_handler, payloadDescription = [CHR ''{'', CHR 0x22] @ ''content'' @ [CHR 0x22] @ '': string}'', paymentDescription = []\<rparr>),
             (''purchase'', \<lparr>func = purchase_handler, payloadDescription = [CHR ''{'', CHR 0x22] @ ''content'' @ [CHR 0x22] @ '': string}'', paymentDescription = ''1''\<rparr>),
             (''status'', \<lparr>func = status_handler, payloadDescription = [], paymentDescription = []\<rparr>),
             (''fail'', \<lparr>func = failing_handler, payloadDescription = [], paymentDescription = []\<rparr>)],
      proto = None\<rparr>"
  by (simp add: example_defs)

section \<open>Facts about dispatch\<close>

lemma handleMessage_entry:
  assumes "json_parse env message = Some msg"
    and "get_member ''type'' (Some msg) = Some (JStr ''action'')"
    and "get_member ''data'' (Some msg) = data"
    and "coercible data"
    and "to_property_key env (get_member ''action'' data) = Some key"
    and "get_handler (actionHandlers b) key = HEntry e"
    and "ctx = new_ActionContext (get_member ''playerID'' data) (get_member ''playerName'' data)
                 (ws b) (get_member ''actionID'' data) (get_member ''action'' data)"
  shows "func_length (func e) = 2 \<Longrightarrow>
           handleMessage env message b =
             (Returned, snd (call_function env (func e) ctx [get_member ''payload'' data] b),
              Invoke (func e) ctx [get_member ''payload'' data]
                # (case fst (call_function env (func e) ctx [get_member ''payload'' data] b) of
                     Threw x \<Rightarrow> [ConsoleError ''Failed to handle message:'' x]
                   | Returned \<Rightarrow> []))"
    and "func_length (func e) = 3 \<Longrightarrow>
           handleMessage env message b =
             (Returned,
              snd (call_function env (func e) ctx
                     [get_member ''payload'' data, get_member ''payment'' data] b),
              Invoke (func e) ctx [get_member ''payload'' data, get_member ''payment'' data]
                # (case fst (call_function env (func e) ctx
                               [get_member ''payload'' data, get_member ''payment'' data] b) of
                     Threw x \<Rightarrow> [ConsoleError ''Failed to handle message:'' x]
                   | Returned \<Rightarrow> []))"
    and "func_length (func e) \<noteq> 2 \<Longrightarrow> func_length (func e) \<noteq> 3 \<Longrightarrow>
           handleMessage env message b =
             (Returned, b,
              [ConsoleWarn (''Handler for action '' @ quoted key
                 @ '' has an unexpected number of parameters'')])"
proof -
  have body: "handleMessage_try env message b = dispatch_action env data b"
    using handleMessage_try_action [OF assms(1,2)] assms(3) by simp
  note d = dispatch_entry [OF assms(4,5,6), folded assms(7)]
  show "func_length (func e) = 2 \<Longrightarrow>
           handleMessage env message b =
             (Returned, snd (call_function env (func e) ctx [get_member ''payload'' data] b),
              Invoke (func e) ctx [get_member ''payload'' data]
                # (case fst (call_function env (func e) ctx [get_member ''payload'' data] b) of
                     Threw x \<Rightarrow> [ConsoleError ''Failed to handle message:'' x]
                   | Returned \<Rightarrow> []))"
    by (simp add: handleMessage_def body d Let_def split: outcome.splits)
  show "func_length (func e) = 3 \<Longrightarrow>
           handleMessage env message b =
             (Returned,
              snd (call_function env (func e) ctx
                     [get_member ''payload'' data, get_member ''payment'' data] b),
              Invoke (func e) ctx [get_member ''payload'' data, get_member ''payment'' data]
                # (case fst (call_function env (func e) ctx
                               [get_member ''payload'' data, get_member ''payment'' data] b) of
                     Threw x \<Rightarrow> [ConsoleError ''Failed to handle message:'' x]
                   | Returned \<Rightarrow> []))"
    by (simp add: handleMessage_def body d Let_def split: outcome.splits)
  show "func_length (func e) \<noteq> 2 \<Longrightarrow> func_length (func e) \<noteq> 3 \<Longrightarrow>
           handleMessage env message b =
             (Returned, b,
              [ConsoleWarn (''Handler for action '' @ quoted key
                 @ '' has an unexpected number of parameters'')])"
    by (simp add: handleMessage_def body d Let_def)
qed

lemma invocations_Invoke_case:
  "invocations (Invoke f ctx args # (case r of Threw x \<Rightarrow> [ConsoleError l x] | Returned \<Rightarrow> [])) =
     [(f, ctx, args)]"
  by (cases r) simp_all

lemma get_handler_undefined:
  assumes "map_of (own h) k = None" and "proto h = None"
    and "k \<noteq> ''__proto__''" and "k \<notin> set object_prototype_functions"
  shows "get_handler h k = HUndefined"
  using assms by (simp add: get_handler_def inherited_def)

lemma handleMessage_no_handler:
  assumes "json_parse env message = Some msg"
    and "get_member ''type'' (Some msg) = Some (JStr ''action'')"
    and "coercible (get_member ''data'' (Some msg))"
    and "to_property_key env (get_member ''action'' (get_member ''data'' (Some msg))) = Some key"
    and "\<not> truthy (get_handler (actionHandlers b) key)"
  shows "handleMessage env message b =
           (Returned, b, [ConsoleWarn (''No handler for action '' @ quoted key)])"
  using assms
  by (simp add: handleMessage_def handleMessage_try_action dispatch_action_def Let_def)

lemma handleMessage_null:
  assumes "json_parse env message = Some JNull"
  shows "handleMessage env message b =
           (Returned, b, [ConsoleError ''Failed to handle message:'' TypeError])"
  using assms by (simp add: handleMessage_def handleMessage_try_def coercible_def)

lemma handleMessage_no_data:
  assumes "json_parse env message = Some msg"
    and "get_member ''type'' (Some msg) = Some (JStr ''action'')"
    and "\<not> coercible (get_member ''data'' (Some msg))"
  shows "handleMessage env message b =
           (Returned, b, [ConsoleError ''Failed to handle message:'' TypeError])"
  using assms
  by (simp add: handleMessage_def handleMessage_try_action dispatch_action_def)

lemma handleMessage_no_key:
  assumes "json_parse env message = Some msg"
    and "get_member ''type'' (Some msg) = Some (JStr ''action'')"
    and "coercible (get_member ''data'' (Some msg))"
    and "to_property_key env (get_member ''action'' (get_member ''data'' (Some msg))) = None"
  shows "handleMessage env message b =
           (Returned, b, [ConsoleError ''Failed to handle message:'' TypeError])"
  using assms
  by (simp add: handleMessage_def handleMessage_try_action dispatch_action_def Let_def)

lemma handleMessage_no_func:
  assumes "json_parse env message = Some msg"
    and "get_member ''type'' (Some msg) = Some (JStr ''action'')"
    and "coercible (get_member ''data'' (Some msg))"
    and "to_property_key env (get_member ''action'' (get_member ''data'' (Some msg))) = Some key"
    and "truthy (get_handler (actionHandlers b) key)"
    and "handler_func (get_handler (actionHandlers b) key) = None"
  shows "handleMessage env message b =
           (Returned, b, [ConsoleError ''Failed to handle message:'' TypeError])"
  using assms
  by (simp add: handleMessage_def handleMessage_try_action dispatch_action_def Let_def)

lemma notifications_append: "notifications (xs @ ys) = notifications xs @ notifications ys"
  by (induction xs rule: notifications.induct) simp_all

lemma invocations_append: "invocations (xs @ ys) = invocations xs @ invocations ys"
  by (induction xs rule: invocations.induct) simp_all

lemma logged_errors_append: "logged_errors (xs @ ys) = logged_errors xs @ logged_errors ys"
  by (induction xs rule: logged_errors.induct) simp_all

lemma handleMessage_effects:
  "snd (snd (handleMessage env message b)) =
     snd (snd (handleMessage_try env message b))
       @ (case fst (handleMessage_try env message b) of
            Threw x \<Rightarrow> [ConsoleError ''Failed to handle message:'' x]
          | Returned \<Rightarrow> [])"
  by (simp add: handleMessage_def split: prod.splits outcome.splits)

lemma handleMessage_state:
  "fst (snd (handleMessage env message b)) = fst (snd (handleMessage_try env message b))"
  by (simp add: handleMessage_def split: prod.splits outcome.splits)

lemma dispatch_action_quiet:
  "invocations (snd (snd (dispatch_action env data b))) = [] \<longrightarrow>
   fst (snd (dispatch_action env data b)) = b"
  by (simp add: dispatch_action_def Let_def split: option.splits prod.splits)

lemma handleMessage_try_quiet:
  "notifications (snd (snd (handleMessage_try env message b))) = [] \<longrightarrow>
   invocations (snd (snd (handleMessage_try env message b))) = [] \<longrightarrow>
   fst (snd (handleMessage_try env message b)) = b"
  using dispatch_action_quiet
  by (simp add: handleMessage_try_def Let_def split: option.splits prod.splits)

lemma handleMessage_quiet_state:
  assumes "notifications (snd (snd (handleMessage env message b))) = []"
    and "invocations (snd (snd (handleMessage env message b))) = []"
  shows "fst (snd (handleMessage env message b)) = b"
  using assms handleMessage_try_quiet [of env message b]
  by (simp add: handleMessage_effects handleMessage_state notifications_append invocations_append)

lemma inert_call: "inert env \<Longrightarrow> snd (call_function env f ctx args b) = b"
  by (simp add: inert_def)

lemma inert_emit: "inert env \<Longrightarrow> snd (emit_listeners env name args b) = b"
  by (simp add: inert_def)

lemma dispatch_action_inert:
  assumes "inert env"
  shows "fst (snd (dispatch_action env data b)) = b"
  by (simp add: dispatch_action_def Let_def inert_call [OF assms] split_beta
      split: option.splits)

lemma get_member_not_coercible: "\<not> coercible v \<Longrightarrow> get_member k v = None"
  using get_member_Some_coercible [of k v] by (cases "get_member k v") auto

lemma handleMessage_inert_state:
  assumes "inert env"
  shows "fst (snd (handleMessage env message b)) =
           (if frame_type env message = Some (JStr ''building'')
            then b\<lparr>buildingInfo := frame_data env message\<rparr>
            else if frame_type env message = Some (JStr ''players'')
            then b\<lparr>players := frame_data env message\<rparr>
            else b)"
proof (cases "json_parse env message")
  case None
  then show ?thesis
    by (simp add: handleMessage_state handleMessage_try_def frame_type_def)
next
  case (Some msg)
  show ?thesis
  proof (cases "coercible (Some msg)")
    case False
    then show ?thesis
      using Some get_member_not_coercible [OF False]
      by (simp add: handleMessage_state handleMessage_try_def frame_type_def)
  next
    case True
    then show ?thesis
      using Some
      by (simp add: handleMessage_state handleMessage_try_def frame_type_def frame_data_def
          Let_def split_beta inert_emit [OF assms] dispatch_action_inert [OF assms])
  qed
qed

lemma handleMessage_players:
  assumes "json_parse env message = Some msg"
    and "get_member ''type'' (Some msg) = Some (JStr ''players'')"
    and "get_member ''data'' (Some msg) = d"
  shows "notifications (snd (snd (handleMessage env message b))) = [(''players'', [d])]"
    and "invocations (snd (snd (handleMessage env message b))) = []"
    and "fst (snd (handleMessage env message b)) =
           snd (emit_listeners env ''players'' [d] (b\<lparr>players := d\<rparr>))"
  using assms(3)
  by (simp_all add: handleMessage_effects handleMessage_state
      handleMessage_try_players [OF assms(1,2)] notifications_append invocations_append
      split: outcome.splits)

lemma handleMessage_building:
  assumes "json_parse env message = Some msg"
    and "get_member ''type'' (Some msg) = Some (JStr ''building'')"
    and "get_member ''data'' (Some msg) = d"
  shows "notifications (snd (snd (handleMessage env message b))) = [(''buildingInfo'', [d])]"
    and "invocations (snd (snd (handleMessage env message b))) = []"
    and "fst (snd (handleMessage env message b)) =
           snd (emit_listeners env ''buildingInfo'' [d] (b\<lparr>buildingInfo := d\<rparr>))"
  using assms(3)
  by (simp_all add: handleMessage_effects handleMessage_state
      handleMessage_try_building [OF assms(1,2)] notifications_append invocations_append
      split: outcome.splits)

lemma unregistered_name_dropped:
  "handleMessage example_env frame_missing example_building =
     (Returned, example_building, [ConsoleWarn (''No handler for action '' @ quoted ''missing'')])"
  by (simp add: example_defs router_defs)

lemma handleMessage_thrown:
  assumes "handleMessage_try env message b = (Threw x, b', es)"
  shows "handleMessage env message b =
           (Returned, b', es @ [ConsoleError ''Failed to handle message:'' x])"
  by (simp add: handleMessage_def assms)

lemma handleMessage_try_thrown_quiet:
  assumes "handleMessage_try env message b = (Threw x, b', es)"
    and "notifications es = []" and "invocations es = []"
  shows "b' = b"
  using assms(2,3) handleMessage_try_quiet [of env message b] by (simp add: assms(1))

lemma handleMessage_try_thrown_inert:
  assumes body: "handleMessage_try env message b = (Threw x, b', es)"
    and no: "notifications es = []" and inert: "inert env"
  shows "b' = b"
proof -
  have "frame_type env message \<noteq> Some (JStr ''building'')"
  proof
    assume "frame_type env message = Some (JStr ''building'')"
    then obtain m where "json_parse env message = Some m"
      and "get_member ''type'' (Some m) = Some (JStr ''building'')"
      by (auto simp: frame_type_def split: option.splits)
    from handleMessage_try_building [OF this, of b] no show False
      by (simp add: body)
  qed
  moreover have "frame_type env message \<noteq> Some (JStr ''players'')"
  proof
    assume "frame_type env message = Some (JStr ''players'')"
    then obtain m where "json_parse env message = Some m"
      and "get_member ''type'' (Some m) = Some (JStr ''players'')"
      by (auto simp: frame_type_def split: option.splits)
    from handleMessage_try_players [OF this, of b] no show False
      by (simp add: body)
  qed
  ultimately have "fst (snd (handleMessage env message b)) = b"
    by (simp add: handleMessage_inert_state [OF inert])
  then show ?thesis
    by (simp add: handleMessage_state body)
qed

lemma handleMessage_handler_throws:
  assumes "json_parse env message = Some msg"
    and "get_member ''type'' (Some msg) = Some (JStr ''action'')"
    and "get_member ''data'' (Some msg) = data"
    and "coercible data"
    and "to_property_key env (get_member ''action'' data) = Some key"
    and "get_handler (actionHandlers b) key = HEntry e"
    and "ctx = new_ActionContext (get_member ''playerID'' data) (get_member ''playerName'' data)
                 (ws b) (get_member ''actionID'' data) (get_member ''action'' data)"
    and "func_length (func e) = 2 \<and> args = [get_member ''payload'' data]
         \<or> func_length (func e) = 3
            \<and> args = [get_member ''payload'' data, get_member ''payment'' data]"
    and "call_function env (func e) ctx args b = (Threw x, b1)"
  shows "handleMessage env message b =
           (Returned, b1,
            [Invoke (func e) ctx args, ConsoleError ''Failed to handle message:'' x])"
  using assms(8)
proof
  assume "func_length (func e) = 2 \<and> args = [get_member ''payload'' data]"
  then show ?thesis
    using handleMessage_entry(1) [OF assms(1-7)] assms(9) by simp
next
  assume "func_length (func e) = 3
            \<and> args = [get_member ''payload'' data, get_member ''payment'' data]"
  then show ?thesis
    using handleMessage_entry(2) [OF assms(1-7)] assms(9) by simp
qed

lemma handleMessage_building_listener_throws:
  assumes "json_parse env message = Some msg"
    and "get_member ''type'' (Some msg) = Some (JStr ''building'')"
    and "emit_listeners env ''buildingInfo'' [get_member ''data'' (Some msg)]
              (b\<lparr>buildingInfo := get_member ''data'' (Some msg)\<rparr>) = (Threw x, b2)"
  shows "handleMessage env message b =
          (Returned, b2,
           [Emit ''buildingInfo'' [get_member ''data'' (Some msg)],
            ConsoleError ''Failed to handle message:'' x])"
  using assms(3) by (simp add: handleMessage_def handleMessage_try_building [OF assms(1,2)])

lemma handleMessage_players_listener_throws:
  assumes "json_parse env message = Some msg"
    and "get_member ''type'' (Some msg) = Some (JStr ''players'')"
    and "emit_listeners env ''players'' [get_member ''data'' (Some msg)]
              (b\<lparr>players := get_member ''data'' (Some msg)\<rparr>) = (Threw x, b2)"
  shows "handleMessage env message b =
          (Returned, b2,
           [Emit ''players'' [get_member ''data'' (Some msg)],
            ConsoleError ''Failed to handle message:'' x])"
  using assms(3) by (simp add: handleMessage_def handleMessage_try_players [OF assms(1,2)])

section \<open>Dispatch by declared parameter count\<close>

text \<open>
  Claim C1, as the code has it. For an \<^verbatim>\<open>action\<close> frame whose \<^verbatim>\<open>data.action\<close> has a
  property key \<open>key\<close> (the conversion does not throw) under which the lookup finds a
  registered entry, the router chooses the call by the declared parameter count of
  the entry's function: with two parameters it is called once with the context and the
  frame's payload; with three it is called once with the context, the payload and the
  payment; the context carries the frame's player, action id and action name and the
  current connection. With every other count, one included, the function is not called,
  one warning is logged and the building is left as it was.
\<close>

theorem action_dispatch_by_parameter_count:
  assumes "json_parse env message = Some msg"
    and "get_member ''type'' (Some msg) = Some (JStr ''action'')"
    and "get_member ''data'' (Some msg) = data"
    and "coercible data"
    and "to_property_key env (get_member ''action'' data) = Some key"
    and "get_handler (actionHandlers b) key = HEntry e"
    and "ctx = new_ActionContext (get_member ''playerID'' data) (get_member ''playerName'' data)
                 (ws b) (get_member ''actionID'' data) (get_member ''action'' data)"
  shows "(func_length (func e) = 2 \<longrightarrow>
            invocations (snd (snd (handleMessage env message b))) =
              [(func e, ctx, [get_member ''payload'' data])]
            \<and> warnings (snd (snd (handleMessage env message b))) = [])
       \<and> (func_length (func e) = 3 \<longrightarrow>
            invocations (snd (snd (handleMessage env message b))) =
              [(func e, ctx, [get_member ''payload'' data, get_member ''payment'' data])]
            \<and> warnings (snd (snd (handleMessage env message b))) = [])
       \<and> (func_length (func e) \<noteq> 2 \<and> func_length (func e) \<noteq> 3 \<longrightarrow>
            invocations (snd (snd (handleMessage env message b))) = []
            \<and> warnings (snd (snd (handleMessage env message b))) =
                [''Handler for action '' @ quoted key
                   @ '' has an unexpected number of parameters'']
            \<and> fst (snd (handleMessage env message b)) = b)"
proof (intro conjI impI)
  assume two: "func_length (func e) = 2"
  note h = handleMessage_entry(1) [OF assms two]
  show "invocations (snd (snd (handleMessage env message b))) =
              [(func e, ctx, [get_member ''payload'' data])]"
    by (simp only: h snd_conv invocations_Invoke_case)
  show "warnings (snd (snd (handleMessage env message b))) = []"
    by (simp add: h split: outcome.splits)
next
  assume three: "func_length (func e) = 3"
  note h = handleMessage_entry(2) [OF assms three]
  show "invocations (snd (snd (handleMessage env message b))) =
              [(func e, ctx, [get_member ''payload'' data, get_member ''payment'' data])]"
    by (simp only: h snd_conv invocations_Invoke_case)
  show "warnings (snd (snd (handleMessage env message b))) = []"
    by (simp add: h split: outcome.splits)
next
  assume other: "func_length (func e) \<noteq> 2 \<and> func_length (func e) \<noteq> 3"
  then have n2: "func_length (func e) \<noteq> 2" and n3: "func_length (func e) \<noteq> 3" by simp_all
  note h = handleMessage_entry(3) [OF assms n2 n3]
  show "invocations (snd (snd (handleMessage env message b))) = []"
    by (simp add: h)
  show "warnings (snd (snd (handleMessage env message b))) =
                [''Handler for action '' @ quoted key
                   @ '' has an unexpected number of parameters'']"
    by (simp add: h)
  show "fst (snd (handleMessage env message b)) = b"
    by (simp add: h)
qed

text \<open>
  The theorem at the purchase frame of the example: three parameters.
\<close>

theorem action_dispatch_witness:
  "json_parse example_env frame_purchase =
     Some (JObj [(''type'', JStr ''action''),
                 (''data'', JObj [(''action'', JStr ''purchase''), (''playerID'', JNum 2),
                                  (''playerName'', JStr ''B''), (''actionID'', JStr ''x2''),
                                  (''payload'', JObj [(''content'', JStr ''tea'')]),
                                  (''payment'', JNum 1)])])
   \<and> to_property_key example_env (Some (JStr ''purchase'')) = Some ''purchase''
   \<and> get_handler (actionHandlers example_building) ''purchase'' =
       HEntry \<lparr>func = purchase_handler,
               payloadDescription = [CHR ''{'', CHR 0x22] @ ''content'' @ [CHR 0x22] @ '': string}'',
               paymentDescription = ''1''\<rparr>
   \<and> func_length purchase_handler = 3
   \<and> invocations (snd (snd (handleMessage example_env frame_purchase example_building))) =
       [(purchase_handler,
         new_ActionContext (Some (JNum 2)) (Some (JStr ''B'')) None (Some (JStr ''x2''))
           (Some (JStr ''purchase'')),
         [Some (JObj [(''content'', JStr ''tea'')]), Some (JNum 1)])]
   \<and> warnings (snd (snd (handleMessage example_env frame_purchase example_building))) = []
   \<and> json_parse example_env frame_echo =
     Some (JObj [(''type'', JStr ''action''),
                 (''data'', JObj [(''action'', JStr ''echo''), (''playerID'', JNum 1),
                                  (''playerName'', JStr ''A''), (''actionID'', JStr ''x1''),
                                  (''payload'', JObj [(''content'', JStr ''hi'')])])])
   \<and> func_length echo_handler = 2
   \<and> invocations (snd (snd (handleMessage example_env frame_echo example_building))) =
       [(echo_handler,
         new_ActionContext (Some (JNum 1)) (Some (JStr ''A'')) None (Some (JStr ''x1''))
           (Some (JStr ''echo'')),
         [Some (JObj [(''content'', JStr ''hi'')])])]"
proof -
  let ?data = "JObj [(''action'', JStr ''purchase''), (''playerID'', JNum 2),
                     (''playerName'', JStr ''B''), (''actionID'', JStr ''x2''),
                     (''payload'', JObj [(''content'', JStr ''tea'')]),
                     (''payment'', JNum 1)]"
  let ?msg = "JObj [(''type'', JStr ''action''), (''data'', ?data)]"
  let ?e = "\<lparr>func = purchase_handler,
               payloadDescription = [CHR ''{'', CHR 0x22] @ ''content'' @ [CHR 0x22] @ '': string}'',
               paymentDescription = ''1''\<rparr>"
  let ?ctx = "new_ActionContext (Some (JNum 2)) (Some (JStr ''B'')) None (Some (JStr ''x2''))
           (Some (JStr ''purchase''))"
  have parse: "json_parse example_env frame_purchase = Some ?msg"
    by (simp add: example_defs)
  have type: "get_member ''type'' (Some ?msg) = Some (JStr ''action'')"
    by simp
  have data: "get_member ''data'' (Some ?msg) = Some ?data"
    by simp
  have co: "coercible (Some ?data)"
    by (simp add: coercible_def)
  have key: "to_property_key example_env (get_member ''action'' (Some ?data)) = Some ''purchase''"
    by (simp add: to_property_key_def)
  have reg: "get_handler (actionHandlers example_building) ''purchase'' = HEntry ?e"
    by (simp add: example_registry get_handler_def)
  have ctx: "?ctx = new_ActionContext (get_member ''playerID'' (Some ?data))
               (get_member ''playerName'' (Some ?data)) (ws example_building)
               (get_member ''actionID'' (Some ?data)) (get_member ''action'' (Some ?data))"
    by (simp add: example_defs)
  have len: "func_length purchase_handler = 3"
    by (simp add: purchase_handler_def)
  from action_dispatch_by_parameter_count [OF parse type data co key reg ctx] len
  have three: "invocations (snd (snd (handleMessage example_env frame_purchase example_building))) =
          [(purchase_handler, ?ctx, [Some (JObj [(''content'', JStr ''tea'')]), Some (JNum 1)])]
        \<and> warnings (snd (snd (handleMessage example_env frame_purchase example_building))) = []"
    by simp
  let ?data2 = "JObj [(''action'', JStr ''echo''), (''playerID'', JNum 1),
                      (''playerName'', JStr ''A''), (''actionID'', JStr ''x1''),
                      (''payload'', JObj [(''content'', JStr ''hi'')])]"
  let ?msg2 = "JObj [(''type'', JStr ''action''), (''data'', ?data2)]"
  let ?e2 = "\<lparr>func = echo_handler,
               payloadDescription = [CHR ''{'', CHR 0x22] @ ''content'' @ [CHR 0x22] @ '': string}'',
               paymentDescription = []\<rparr>"
  let ?ctx2 = "new_ActionContext (Some (JNum 1)) (Some (JStr ''A'')) None (Some (JStr ''x1''))
           (Some (JStr ''echo''))"
  have parse2: "json_parse example_env frame_echo = Some ?msg2"
    by (simp add: example_defs)
  have type2: "get_member ''type'' (Some ?msg2) = Some (JStr ''action'')"
    by simp
  have data2: "get_member ''data'' (Some ?msg2) = Some ?data2"
    by simp
  have co2: "coercible (Some ?data2)"
    by (simp add: coercible_def)
  have key2: "to_property_key example_env (get_member ''action'' (Some ?data2)) = Some ''echo''"
    by (simp add: to_property_key_def)
  have reg2: "get_handler (actionHandlers example_building) ''echo'' = HEntry ?e2"
    by (simp add: example_registry get_handler_def)
  have ctx2: "?ctx2 = new_ActionContext (get_member ''playerID'' (Some ?data2))
               (get_member ''playerName'' (Some ?data2)) (ws example_building)
               (get_member ''actionID'' (Some ?data2)) (get_member ''action'' (Some ?data2))"
    by (simp add: example_defs)
  have len2: "func_length echo_handler = 2"
    by (simp add: echo_handler_def)
  from action_dispatch_by_parameter_count [OF parse2 type2 data2 co2 key2 reg2 ctx2] len2
  have two: "invocations (snd (snd (handleMessage example_env frame_echo example_building))) =
          [(echo_handler, ?ctx2, [Some (JObj [(''content'', JStr ''hi'')])])]"
    by simp
  have "to_property_key example_env (Some (JStr ''purchase'')) = Some ''purchase''"
    using key by simp
  with three two reg show ?thesis
    using parse len parse2 len2 by simp
qed

text \<open>
  A function declared with one parameter is registered and requested, and is not called:
  the router warns instead of calling it with the context alone.
\<close>

theorem one_parameter_handler_not_called:
  "func_length status_handler = 1
   \<and> get_handler (actionHandlers example_building) ''status'' =
       HEntry \<lparr>func = status_handler, payloadDescription = [], paymentDescription = []\<rparr>
   \<and> invocations (snd (snd (handleMessage example_env frame_status example_building))) = []
   \<and> warnings (snd (snd (handleMessage example_env frame_status example_building))) =
       [''Handler for action '' @ quoted ''status'' @ '' has an unexpected number of parameters'']"
  by (simp add: example_defs router_defs)

section \<open>The announcement on open\<close>

text \<open>
  What the open listener sends when \<^verbatim>\<open>this.ws\<close> is the connection \<open>sock\<close>: exactly one
  message, on \<open>sock\<close>, the serialization of a \<^verbatim>\<open>registerActions\<close> message whose
  \<^verbatim>\<open>data.actions\<close> has a member for a key exactly when \<^verbatim>\<open>actionHandlers\<close> has an own
  property for it, with that entry's descriptions. A registration under any name but
  \<^verbatim>\<open>__proto__\<close> stores such a property, with the empty string for an omitted description.
\<close>

lemma open_announces_own_entries:
  assumes "ws b = Some sock"
    and "''__proto__'' \<notin> fst ` set (own (actionHandlers b))"
  shows "sent_messages (snd (snd (on_open env b))) =
           [(sock, json_stringify env (registerActionsMessage (actionHandlers b)))]
       \<and> get_member ''type'' (Some (registerActionsMessage (actionHandlers b))) =
           Some (JStr ''registerActions'')
       \<and> (\<forall>k. get_member k (get_member ''actions'' (get_member ''data''
                  (Some (registerActionsMessage (actionHandlers b))))) =
               (case map_of (own (actionHandlers b)) k of
                  None \<Rightarrow> None
                | Some e \<Rightarrow>
                    Some (JObj [(''payload'', JStr (payloadDescription e)),
                                (''payment'', JStr (paymentDescription e))])))
       \<and> (\<forall>config f b0. cfg_action config \<noteq> ''__proto__'' \<longrightarrow>
             map_option payloadDescription
               (map_of (own (actionHandlers (action config f b0))) (cfg_action config)) =
               Some (case cfg_payloadDescription config of None \<Rightarrow> [] | Some s \<Rightarrow> s)
           \<and> map_option paymentDescription
               (map_of (own (actionHandlers (action config f b0))) (cfg_action config)) =
               Some (case cfg_paymentDescription config of None \<Rightarrow> [] | Some s \<Rightarrow> s))
       \<and> (\<forall>b0. ws (fst (connect env sock b0)) = Some sock
             \<and> actionHandlers (fst (connect env sock b0)) = actionHandlers b0)"
proof -
  have "sent_messages (snd (snd (on_open env b))) =
           [(sock, json_stringify env (registerActionsMessage (actionHandlers b)))]"
    using assms(1) by (simp add: sent_on_open)
  moreover have "get_member ''type'' (Some (registerActionsMessage (actionHandlers b))) =
           Some (JStr ''registerActions'')"
    by (simp add: registerActionsMessage_def)
  moreover have "\<And>k. get_member k (get_member ''actions'' (get_member ''data''
                  (Some (registerActionsMessage (actionHandlers b))))) =
               (case map_of (own (actionHandlers b)) k of
                  None \<Rightarrow> None
                | Some e \<Rightarrow>
                    Some (JObj [(''payload'', JStr (payloadDescription e)),
                                (''payment'', JStr (paymentDescription e))]))"
    using assms(2) by (rule announced_actions_case)
  moreover have "\<And>config f b0. cfg_action config \<noteq> ''__proto__'' \<Longrightarrow>
             map_option payloadDescription
               (map_of (own (actionHandlers (action config f b0))) (cfg_action config)) =
               Some (case cfg_payloadDescription config of None \<Rightarrow> [] | Some s \<Rightarrow> s)
           \<and> map_option paymentDescription
               (map_of (own (actionHandlers (action config f b0))) (cfg_action config)) =
               Some (case cfg_paymentDescription config of None \<Rightarrow> [] | Some s \<Rightarrow> s)"
    by (simp add: own_action string_or_def split: option.splits)
  moreover have "\<And>b0. ws (fst (connect env sock b0)) = Some sock
             \<and> actionHandlers (fst (connect env sock b0)) = actionHandlers b0"
    by (simp add: connect_def)
  ultimately show ?thesis by blast
qed

text \<open>
  Claim C2, at a building with one registration, under the name \<^verbatim>\<open>__proto__\<close>. The
  registration creates no own property: the entry becomes the prototype of
  \<^verbatim>\<open>actionHandlers\<close>. The lookup finds it, and a frame that requests the action
  \<^verbatim>\<open>__proto__\<close> calls its function; but \<^verbatim>\<open>Object.keys\<close> does not list it, and the one
  message that the open listener sends announces no action.
\<close>

theorem proto_entry_dispatched_not_announced:
  \<open>get_handler (actionHandlers (action proto_config echo_handler
       (constructor example_env example_options))) ''__proto__'' =
     HEntry \<lparr>func = echo_handler, payloadDescription = ''p'', paymentDescription = []\<rparr>
   \<and> invocations (snd (snd (handleMessage example_env frame_proto
         (action proto_config echo_handler (constructor example_env example_options))))) =
       [(echo_handler,
         new_ActionContext None None None (Some (JStr ''x5'')) (Some (JStr ''__proto__'')),
         [None])]
   \<and> obj_keys (actionHandlers (action proto_config echo_handler
         (constructor example_env example_options))) = []
   \<and> sent_messages (snd (snd (on_open example_env (fst (run example_env 3
         (action proto_config echo_handler (constructor example_env example_options))))))) =
       [(3, ''{"type":"registerActions","data":{"actions":{}}}'')]\<close>
  by (simp add: example_defs router_defs on_open_def run_def connect_def
      registerActionsMessage_def serialize_def obj_keys_def obj_entries_def Let_def
      escape_char_def)

section \<open>Repeated registrations\<close>

text \<open>
  Claim C3, at a registration under the name \<^verbatim>\<open>__proto__\<close>. For every other name the
  last registration is the registry's entry and the announced one
  (\<open>register_all_last\<close>, \<open>last_registration_announced\<close>). Two registrations under
  \<^verbatim>\<open>__proto__\<close> create no own property: the lookup finds the second entry, as the
  object's prototype, and the announcement built from that registry has no action at all.
\<close>

theorem proto_registration_not_announced:
  "own (actionHandlers (register_all [(proto_config, echo_handler), (proto_config, purchase_handler)]
          (constructor example_env example_options))) = []
   \<and> get_handler (actionHandlers (register_all [(proto_config, echo_handler), (proto_config, purchase_handler)]
          (constructor example_env example_options))) ''__proto__'' =
       HEntry \<lparr>func = purchase_handler, payloadDescription = ''p'', paymentDescription = []\<rparr>
   \<and> get_member ''actions'' (get_member ''data'' (Some (registerActionsMessage
         (actionHandlers (register_all [(proto_config, echo_handler), (proto_config, purchase_handler)]
          (constructor example_env example_options)))))) = Some (JObj [])"
  by (simp add: example_defs router_defs registerActionsMessage_def serialize_def obj_keys_def obj_entries_def)

section \<open>Frames that fail to parse\<close>

text \<open>
  Claim C4, as the code has it. \<open>handleMessage\<close> never throws. A frame that fails to parse
  is caught and logged and leaves the building as it was. Whatever the \<^verbatim>\<open>try\<close> block
  throws is caught and logged after the effects the block had; when it throws before any
  notification was emitted, the building is as it was, provided no registered function was
  called or the caller's code assigns nothing. The router's own code throws, and the
  TypeError is logged with the building unchanged, for a \<^verbatim>\<open>null\<close> frame, for an
  \<^verbatim>\<open>action\<close> frame whose data is \<^verbatim>\<open>null\<close> or missing, for an action name that has no
  property key, and for a lookup that ends in a value without \<^verbatim>\<open>func\<close>. When a
  registered function throws, the error is logged after its call and the building is as
  the function left it; when a listener of a notification throws, the error is logged
  after the notification and the building is the one with the cache replaced, as the
  listener left it. A players frame that follows is routed: the notification carries its
  data, and the listeners run on the building with the roster replaced.
\<close>

theorem malformed_frame_dropped:
  "fst (handleMessage env message b) = Returned
   \<and> (json_parse env message = None \<longrightarrow>
        handleMessage env message b =
          (Returned, b, [ConsoleError ''Failed to handle message:'' SyntaxError]))
   \<and> (handleMessage_try env message b = (Threw x, b', es) \<longrightarrow>
        handleMessage env message b =
          (Returned, b', es @ [ConsoleError ''Failed to handle message:'' x])
        \<and> (notifications es = [] \<and> invocations es = [] \<longrightarrow> b' = b)
        \<and> (notifications es = [] \<and> inert env \<longrightarrow> b' = b))
   \<and> (json_parse env message = Some JNull \<longrightarrow>
        handleMessage env message b =
          (Returned, b, [ConsoleError ''Failed to handle message:'' TypeError]))
   \<and> (json_parse env message = Some frame
        \<and> get_member ''type'' (Some frame) = Some (JStr ''action'')
        \<and> \<not> coercible (get_member ''data'' (Some frame)) \<longrightarrow>
        handleMessage env message b =
          (Returned, b, [ConsoleError ''Failed to handle message:'' TypeError]))
   \<and> (json_parse env message = Some frame
        \<and> get_member ''type'' (Some frame) = Some (JStr ''action'')
        \<and> coercible (get_member ''data'' (Some frame))
        \<and> to_property_key env (get_member ''action'' (get_member ''data'' (Some frame))) = None
        \<longrightarrow>
        handleMessage env message b =
          (Returned, b, [ConsoleError ''Failed to handle message:'' TypeError]))
   \<and> (json_parse env message = Some frame
        \<and> get_member ''type'' (Some frame) = Some (JStr ''action'')
        \<and> coercible (get_member ''data'' (Some frame))
        \<and> to_property_key env (get_member ''action'' (get_member ''data'' (Some frame))) = Some key
        \<and> truthy (get_handler (actionHandlers b) key)
        \<and> handler_func (get_handler (actionHandlers b) key) = None \<longrightarrow>
        handleMessage env message b =
          (Returned, b, [ConsoleError ''Failed to handle message:'' TypeError]))
   \<and> (json_parse env message = Some frame
        \<and> get_member ''type'' (Some frame) = Some (JStr ''action'')
        \<and> coercible (get_member ''data'' (Some frame))
        \<and> to_property_key env (get_member ''action'' (get_member ''data'' (Some frame))) = Some key
        \<and> get_handler (actionHandlers b) key = HEntry e
        \<and> ctx = new_ActionContext (get_member ''playerID'' (get_member ''data'' (Some frame)))
                  (get_member ''playerName'' (get_member ''data'' (Some frame))) (ws b)
                  (get_member ''actionID'' (get_member ''data'' (Some frame)))
                  (get_member ''action'' (get_member ''data'' (Some frame)))
        \<and> (func_length (func e) = 2
               \<and> args = [get_member ''payload'' (get_member ''data'' (Some frame))]
             \<or> func_length (func e) = 3
               \<and> args = [get_member ''payload'' (get_member ''data'' (Some frame)),
                           get_member ''payment'' (get_member ''data'' (Some frame))])
        \<and> call_function env (func e) ctx args b = (Threw x, b1) \<longrightarrow>
        handleMessage env message b =
          (Returned, b1,
           [Invoke (func e) ctx args, ConsoleError ''Failed to handle message:'' x]))
   \<and> (json_parse env message = Some frame
        \<and> get_member ''type'' (Some frame) = Some (JStr ''building'')
        \<and> emit_listeners env ''buildingInfo'' [get_member ''data'' (Some frame)]
              (b\<lparr>buildingInfo := get_member ''data'' (Some frame)\<rparr>) = (Threw x, b2) \<longrightarrow>
        handleMessage env message b =
          (Returned, b2,
           [Emit ''buildingInfo'' [get_member ''data'' (Some frame)],
            ConsoleError ''Failed to handle message:'' x]))
   \<and> (json_parse env message = Some frame
        \<and> get_member ''type'' (Some frame) = Some (JStr ''players'')
        \<and> emit_listeners env ''players'' [get_member ''data'' (Some frame)]
              (b\<lparr>players := get_member ''data'' (Some frame)\<rparr>) = (Threw x, b2) \<longrightarrow>
        handleMessage env message b =
          (Returned, b2,
           [Emit ''players'' [get_member ''data'' (Some frame)],
            ConsoleError ''Failed to handle message:'' x]))
   \<and> (json_parse env following = Some msg
        \<and> get_member ''type'' (Some msg) = Some (JStr ''players'') \<longrightarrow>
        notifications (snd (snd (handleMessage env following (fst (snd (handleMessage env message b)))))) =
          [(''players'', [get_member ''data'' (Some msg)])]
        \<and> fst (snd (handleMessage env following (fst (snd (handleMessage env message b))))) =
            snd (emit_listeners env ''players'' [get_member ''data'' (Some msg)]
                  ((fst (snd (handleMessage env message b)))
                     \<lparr>players := get_member ''data'' (Some msg)\<rparr>)))"
proof (intro conjI impI)
  show "fst (handleMessage env message b) = Returned"
    by (rule handleMessage_never_throws)
  show "handleMessage env message b =
          (Returned, b, [ConsoleError ''Failed to handle message:'' SyntaxError])"
    if "json_parse env message = None"
    using that by (rule handleMessage_unparsed)
  show "handleMessage env message b =
          (Returned, b', es @ [ConsoleError ''Failed to handle message:'' x])"
    if "handleMessage_try env message b = (Threw x, b', es)"
    using that by (rule handleMessage_thrown)
  show "b' = b"
    if "handleMessage_try env message b = (Threw x, b', es)"
      and "notifications es = [] \<and> invocations es = []"
    using that by (elim conjE) (rule handleMessage_try_thrown_quiet)
  show "b' = b"
    if "handleMessage_try env message b = (Threw x, b', es)"
      and "notifications es = [] \<and> inert env"
    using that by (elim conjE) (rule handleMessage_try_thrown_inert)
  show "handleMessage env message b =
          (Returned, b, [ConsoleError ''Failed to handle message:'' TypeError])"
    if "json_parse env message = Some JNull"
    using that by (rule handleMessage_null)
  show "handleMessage env message b =
          (Returned, b, [ConsoleError ''Failed to handle message:'' TypeError])"
    if "json_parse env message = Some frame
        \<and> get_member ''type'' (Some frame) = Some (JStr ''action'')
        \<and> \<not> coercible (get_member ''data'' (Some frame))"
    using that by (elim conjE) (rule handleMessage_no_data)
  show "handleMessage env message b =
          (Returned, b, [ConsoleError ''Failed to handle message:'' TypeError])"
    if "json_parse env message = Some frame
        \<and> get_member ''type'' (Some frame) = Some (JStr ''action'')
        \<and> coercible (get_member ''data'' (Some frame))
        \<and> to_property_key env (get_member ''action'' (get_member ''data'' (Some frame))) = None"
    using that by (elim conjE) (rule handleMessage_no_key)
  show "handleMessage env message b =
          (Returned, b, [ConsoleError ''Failed to handle message:'' TypeError])"
    if "json_parse env message = Some frame
        \<and> get_member ''type'' (Some frame) = Some (JStr ''action'')
        \<and> coercible (get_member ''data'' (Some frame))
        \<and> to_property_key env (get_member ''action'' (get_member ''data'' (Some frame))) = Some key
        \<and> truthy (get_handler (actionHandlers b) key)
        \<and> handler_func (get_handler (actionHandlers b) key) = None"
    using that by (elim conjE) (rule handleMessage_no_func)
  show "handleMessage env message b =
          (Returned, b1,
           [Invoke (func e) ctx args, ConsoleError ''Failed to handle message:'' x])"
    if "json_parse env message = Some frame
        \<and> get_member ''type'' (Some frame) = Some (JStr ''action'')
        \<and> coercible (get_member ''data'' (Some frame))
        \<and> to_property_key env (get_member ''action'' (get_member ''data'' (Some frame))) = Some key
        \<and> get_handler (actionHandlers b) key = HEntry e
        \<and> ctx = new_ActionContext (get_member ''playerID'' (get_member ''data'' (Some frame)))
                  (get_member ''playerName'' (get_member ''data'' (Some frame))) (ws b)
                  (get_member ''actionID'' (get_member ''data'' (Some frame)))
                  (get_member ''action'' (get_member ''data'' (Some frame)))
        \<and> (func_length (func e) = 2
               \<and> args = [get_member ''payload'' (get_member ''data'' (Some frame))]
             \<or> func_length (func e) = 3
               \<and> args = [get_member ''payload'' (get_member ''data'' (Some frame)),
                           get_member ''payment'' (get_member ''data'' (Some frame))])
        \<and> call_function env (func e) ctx args b = (Threw x, b1)"
    using that by (elim conjE) (rule handleMessage_handler_throws [OF _ _ refl])
  show "handleMessage env message b =
          (Returned, b2,
           [Emit ''buildingInfo'' [get_member ''data'' (Some frame)],
            ConsoleError ''Failed to handle message:'' x])"
    if "json_parse env message = Some frame
        \<and> get_member ''type'' (Some frame) = Some (JStr ''building'')
        \<and> emit_listeners env ''buildingInfo'' [get_member ''data'' (Some frame)]
              (b\<lparr>buildingInfo := get_member ''data'' (Some frame)\<rparr>) = (Threw x, b2)"
    using that by (elim conjE) (rule handleMessage_building_listener_throws)
  show "handleMessage env message b =
          (Returned, b2,
           [Emit ''players'' [get_member ''data'' (Some frame)],
            ConsoleError ''Failed to handle message:'' x])"
    if "json_parse env message = Some frame
        \<and> get_member ''type'' (Some frame) = Some (JStr ''players'')
        \<and> emit_listeners env ''players'' [get_member ''data'' (Some frame)]
              (b\<lparr>players := get_member ''data'' (Some frame)\<rparr>) = (Threw x, b2)"
    using that by (elim conjE) (rule handleMessage_players_listener_throws)
next
  assume "json_parse env following = Some msg
        \<and> get_member ''type'' (Some msg) = Some (JStr ''players'')"
  then have p: "json_parse env following = Some msg"
    and t: "get_member ''type'' (Some msg) = Some (JStr ''players'')"
    by simp_all
  note h = handleMessage_players [OF p t refl, of "fst (snd (handleMessage env message b))"]
  show "notifications (snd (snd (handleMessage env following
          (fst (snd (handleMessage env message b)))))) =
          [(''players'', [get_member ''data'' (Some msg)])]"
    by (rule h(1))
  show "fst (snd (handleMessage env following (fst (snd (handleMessage env message b))))) =
            snd (emit_listeners env ''players'' [get_member ''data'' (Some msg)]
                  ((fst (snd (handleMessage env message b)))
                     \<lparr>players := get_member ''data'' (Some msg)\<rparr>))"
    by (rule h(3))
qed

text \<open>
  The theorem at a truncated frame, a \<^verbatim>\<open>null\<close> frame, an action frame without data, an
  action named by an object with an own \<^verbatim>\<open>toString\<close>, and a players frame that follows.
\<close>

theorem malformed_frame_witness:
  "json_parse example_env frame_malformed = None
   \<and> handleMessage example_env frame_malformed example_building =
       (Returned, example_building, [ConsoleError ''Failed to handle message:'' SyntaxError])
   \<and> json_parse example_env frame_null = Some JNull
   \<and> handleMessage_try example_env frame_null example_building =
       (Threw TypeError, example_building, [])
   \<and> handleMessage example_env frame_null example_building =
       (Returned, example_building, [ConsoleError ''Failed to handle message:'' TypeError])
   \<and> json_parse example_env frame_no_data = Some (JObj [(''type'', JStr ''action'')])
   \<and> \<not> coercible (get_member ''data'' (Some (JObj [(''type'', JStr ''action'')])))
   \<and> handleMessage example_env frame_no_data example_building =
       (Returned, example_building, [ConsoleError ''Failed to handle message:'' TypeError])
   \<and> json_parse example_env frame_named_by_object =
       Some (JObj [(''type'', JStr ''action''),
                   (''data'', JObj [(''action'', JObj [(''toString'', JNum 1)])])])
   \<and> to_property_key example_env (Some (JObj [(''toString'', JNum 1)])) = None
   \<and> handleMessage example_env frame_named_by_object example_building =
       (Returned, example_building, [ConsoleError ''Failed to handle message:'' TypeError])
   \<and> json_parse example_env frame_players =
       Some (JObj [(''type'', JStr ''players''), (''data'', JArr [JObj [(''name'', JStr ''A'')]])])
   \<and> notifications (snd (snd (handleMessage example_env frame_players
         (fst (snd (handleMessage example_env frame_malformed example_building)))))) =
       [(''players'', [Some (JArr [JObj [(''name'', JStr ''A'')]])])]
   \<and> players (fst (snd (handleMessage example_env frame_players
         (fst (snd (handleMessage example_env frame_malformed example_building)))))) =
       Some (JArr [JObj [(''name'', JStr ''A'')]])"
proof -
  let ?msg = "JObj [(''type'', JStr ''players''), (''data'', JArr [JObj [(''name'', JStr ''A'')]])]"
  let ?nodata = "JObj [(''type'', JStr ''action'')]"
  let ?named = "JObj [(''type'', JStr ''action''),
                   (''data'', JObj [(''action'', JObj [(''toString'', JNum 1)])])]"
  have bad: "json_parse example_env frame_malformed = None"
    by (simp add: example_defs)
  have good: "json_parse example_env frame_players = Some ?msg"
    by (simp add: example_defs)
  have type: "get_member ''type'' (Some ?msg) = Some (JStr ''players'')"
    by simp
  have null: "json_parse example_env frame_null = Some JNull"
    by (simp add: example_defs)
  have null_body: "handleMessage_try example_env frame_null example_building =
       (Threw TypeError, example_building, [])"
    by (simp add: handleMessage_try_def null coercible_def)
  have nodata: "json_parse example_env frame_no_data = Some ?nodata"
    by (simp add: example_defs)
  have nodata_type: "get_member ''type'' (Some ?nodata) = Some (JStr ''action'')"
    by simp
  have nodata_co: "\<not> coercible (get_member ''data'' (Some ?nodata))"
    by (simp add: coercible_def)
  have named: "json_parse example_env frame_named_by_object = Some ?named"
    by (simp add: example_defs)
  have named_type: "get_member ''type'' (Some ?named) = Some (JStr ''action'')"
    by simp
  have named_co: "coercible (get_member ''data'' (Some ?named))"
    by (simp add: coercible_def)
  have nokey: "to_property_key example_env (Some (JObj [(''toString'', JNum 1)])) = None"
    by (simp add: to_property_key_def)
  have named_key: "to_property_key example_env
      (get_member ''action'' (get_member ''data'' (Some ?named))) = None"
    using nokey by simp
  note t = malformed_frame_dropped [where env = example_env and message = frame_malformed
      and b = example_building and following = frame_players and msg = ?msg]
  have dropped: "handleMessage example_env frame_malformed example_building =
       (Returned, example_building, [ConsoleError ''Failed to handle message:'' SyntaxError])"
    by (rule t [THEN conjunct2, THEN conjunct1, THEN mp, OF bad])
  have routed: "notifications (snd (snd (handleMessage example_env frame_players
         (fst (snd (handleMessage example_env frame_malformed example_building)))))) =
          [(''players'', [get_member ''data'' (Some ?msg)])]
        \<and> fst (snd (handleMessage example_env frame_players
         (fst (snd (handleMessage example_env frame_malformed example_building))))) =
            snd (emit_listeners example_env ''players'' [get_member ''data'' (Some ?msg)]
                  ((fst (snd (handleMessage example_env frame_malformed example_building)))
                     \<lparr>players := get_member ''data'' (Some ?msg)\<rparr>))"
    by (rule t [THEN conjunct2, THEN conjunct2, THEN conjunct2, THEN conjunct2, THEN conjunct2, THEN conjunct2, THEN conjunct2, THEN conjunct2, THEN conjunct2, THEN conjunct2, THEN mp, OF conjI [OF good type]])
  from routed have roster: "players (fst (snd (handleMessage example_env frame_players
         (fst (snd (handleMessage example_env frame_malformed example_building)))))) =
       Some (JArr [JObj [(''name'', JStr ''A'')]])"
    by (simp add: example_env_def)
  have "handleMessage example_env frame_null example_building =
       (Returned, example_building, [] @ [ConsoleError ''Failed to handle message:'' TypeError])"
    by (rule malformed_frame_dropped [where env = example_env and message = frame_null
          and b = example_building and x = TypeError and b' = example_building and es = "[]",
          THEN conjunct2, THEN conjunct2, THEN conjunct1, THEN mp, OF null_body, THEN conjunct1])
  then have at_null: "handleMessage example_env frame_null example_building =
       (Returned, example_building, [ConsoleError ''Failed to handle message:'' TypeError])"
    by simp
  have at_nodata: "handleMessage example_env frame_no_data example_building =
       (Returned, example_building, [ConsoleError ''Failed to handle message:'' TypeError])"
    by (rule malformed_frame_dropped [where env = example_env and message = frame_no_data
          and b = example_building and frame = ?nodata,
          THEN conjunct2, THEN conjunct2, THEN conjunct2, THEN conjunct2, THEN conjunct1, THEN mp, OF conjI [OF nodata conjI [OF nodata_type nodata_co]]])
  have at_named: "handleMessage example_env frame_named_by_object example_building =
       (Returned, example_building, [ConsoleError ''Failed to handle message:'' TypeError])"
    by (rule malformed_frame_dropped [where env = example_env
          and message = frame_named_by_object and b = example_building and frame = ?named,
          THEN conjunct2, THEN conjunct2, THEN conjunct2, THEN conjunct2, THEN conjunct2, THEN conjunct1, THEN mp,
          OF conjI [OF named conjI [OF named_type conjI [OF named_co named_key]]]])
  from routed roster bad good dropped null null_body at_null nodata nodata_co at_nodata
    named nokey at_named
  show ?thesis
    by simp
qed

text \<open>
  Handling that throws after the assignment: a listener of the \<^verbatim>\<open>buildingInfo\<close>
  notification throws, the error is caught and logged, and the cached building record
  is the new one.
\<close>

theorem listener_exception_after_replacement:
  "logged_errors (snd (snd (handleMessage throwing_listener_env frame_building example_building))) =
     [Thrown ''listener'']
   \<and> fst (handleMessage throwing_listener_env frame_building example_building) = Returned
   \<and> buildingInfo example_building = Some (JObj [])
   \<and> buildingInfo (fst (snd (handleMessage throwing_listener_env frame_building example_building))) =
       Some (JObj [(''name'', JStr ''Cafe'')])"
  by (simp add: throwing_listener_env_def example_defs router_defs)

section \<open>Requests for unregistered actions\<close>

text \<open>
  Claim C5, at a frame that requests the action \<^verbatim>\<open>constructor\<close> from a building with
  no registration. Where the lookup is \<^verbatim>\<open>undefined\<close> the router warns and drops the
  frame (\<open>handleMessage_no_handler\<close>, \<open>get_handler_undefined\<close>,
  \<open>unregistered_name_dropped\<close>). Here the lookup finds
  the function inherited from \<^verbatim>\<open>Object.prototype\<close>, reading its \<^verbatim>\<open>func.length\<close> throws,
  and the router logs an error, not the warning; nothing is called and the building is
  unchanged.
\<close>

theorem inherited_name_taken_for_handler:
  "map_of (own (actionHandlers (constructor example_env example_options))) ''constructor'' = None
   \<and> handleMessage example_env frame_constructor (constructor example_env example_options) =
       (Returned, constructor example_env example_options,
        [ConsoleError ''Failed to handle message:'' TypeError])"
  by (simp add: example_defs router_defs)

section \<open>Building and roster snapshots\<close>

text \<open>
  Claim C6. For a \<^verbatim>\<open>building\<close> frame the cached building record is assigned the frame's
  \<^verbatim>\<open>data\<close>, whatever it held before, and one \<^verbatim>\<open>buildingInfo\<close> notification
  carrying that value is emitted; the listeners run on the building so updated, and the
  building after the frame is the one they leave (the updated one, if they assign
  nothing). Likewise for a \<^verbatim>\<open>players\<close> frame, the roster and the \<^verbatim>\<open>players\<close>
  notification.
\<close>

theorem snapshot_replaced_and_notified:
  assumes "json_parse env message = Some msg"
    and "get_member ''data'' (Some msg) = d"
  shows "(get_member ''type'' (Some msg) = Some (JStr ''building'') \<longrightarrow>
            notifications (snd (snd (handleMessage env message b))) = [(''buildingInfo'', [d])]
            \<and> fst (snd (handleMessage env message b)) =
                snd (emit_listeners env ''buildingInfo'' [d] (b\<lparr>buildingInfo := d\<rparr>))
            \<and> buildingInfo (b\<lparr>buildingInfo := d\<rparr>) = d
            \<and> (inert env \<longrightarrow> fst (snd (handleMessage env message b)) = b\<lparr>buildingInfo := d\<rparr>))
       \<and> (get_member ''type'' (Some msg) = Some (JStr ''players'') \<longrightarrow>
            notifications (snd (snd (handleMessage env message b))) = [(''players'', [d])]
            \<and> fst (snd (handleMessage env message b)) =
                snd (emit_listeners env ''players'' [d] (b\<lparr>players := d\<rparr>))
            \<and> players (b\<lparr>players := d\<rparr>) = d
            \<and> (inert env \<longrightarrow> fst (snd (handleMessage env message b)) = b\<lparr>players := d\<rparr>))"
proof (intro conjI impI)
  assume t: "get_member ''type'' (Some msg) = Some (JStr ''building'')"
  note h = handleMessage_building [OF assms(1) t assms(2)]
  show "notifications (snd (snd (handleMessage env message b))) = [(''buildingInfo'', [d])]"
    by (rule h(1))
  show "fst (snd (handleMessage env message b)) =
          snd (emit_listeners env ''buildingInfo'' [d] (b\<lparr>buildingInfo := d\<rparr>))"
    by (rule h(3))
  show "buildingInfo (b\<lparr>buildingInfo := d\<rparr>) = d" by simp
  show "fst (snd (handleMessage env message b)) = b\<lparr>buildingInfo := d\<rparr>" if "inert env"
    by (simp add: h(3) inert_emit [OF that])
next
  assume t: "get_member ''type'' (Some msg) = Some (JStr ''players'')"
  note h = handleMessage_players [OF assms(1) t assms(2)]
  show "notifications (snd (snd (handleMessage env message b))) = [(''players'', [d])]"
    by (rule h(1))
  show "fst (snd (handleMessage env message b)) =
          snd (emit_listeners env ''players'' [d] (b\<lparr>players := d\<rparr>))"
    by (rule h(3))
  show "players (b\<lparr>players := d\<rparr>) = d" by simp
  show "fst (snd (handleMessage env message b)) = b\<lparr>players := d\<rparr>" if "inert env"
    by (simp add: h(3) inert_emit [OF that])
qed

text \<open>
  The theorem at the building frame of the example.
\<close>

theorem snapshot_witness:
  "json_parse example_env frame_building =
     Some (JObj [(''type'', JStr ''building''), (''data'', JObj [(''name'', JStr ''Cafe'')])])
   \<and> inert example_env
   \<and> buildingInfo example_building = Some (JObj [])
   \<and> notifications (snd (snd (handleMessage example_env frame_building example_building))) =
       [(''buildingInfo'', [Some (JObj [(''name'', JStr ''Cafe'')])])]
   \<and> fst (snd (handleMessage example_env frame_building example_building)) =
       example_building\<lparr>buildingInfo := Some (JObj [(''name'', JStr ''Cafe'')])\<rparr>"
proof -
  let ?d = "JObj [(''name'', JStr ''Cafe'')]"
  let ?msg = "JObj [(''type'', JStr ''building''), (''data'', ?d)]"
  have parse: "json_parse example_env frame_building = Some ?msg"
    by (simp add: example_defs)
  have data: "get_member ''data'' (Some ?msg) = Some ?d"
    by simp
  have type: "get_member ''type'' (Some ?msg) = Some (JStr ''building'')"
    by simp
  have inert: "inert example_env"
    by (simp add: inert_def example_env_def example_call_def)
  have old: "buildingInfo example_building = Some (JObj [])"
    by (simp add: example_defs)
  from snapshot_replaced_and_notified [OF parse data, of example_building] type inert
  have "notifications (snd (snd (handleMessage example_env frame_building example_building))) =
          [(''buildingInfo'', [Some ?d])]
        \<and> fst (snd (handleMessage example_env frame_building example_building)) =
            example_building\<lparr>buildingInfo := Some ?d\<rparr>"
    by blast
  then show ?thesis
    using parse inert old by simp
qed

section \<open>Reconnection\<close>



section \<open>Frames of other types\<close>

text \<open>
  Claim C8. A frame that parses and whose \<^verbatim>\<open>type\<close> is none of \<^verbatim>\<open>building\<close>,
  \<^verbatim>\<open>players\<close> and \<^verbatim>\<open>action\<close> leaves the whole building unchanged (the caches, the
  registry and the connection reference), calls no function, emits no notification and
  sends nothing; when it is an object or another value with members, nothing is logged
  either. For every frame, if the caller's code assigns nothing, the building after the
  frame differs from the one before at most in the one cache that the frame's type names.
\<close>

theorem unknown_type_ignored:
  "(json_parse env message = Some msg
     \<and> get_member ''type'' (Some msg) \<noteq> Some (JStr ''building'')
     \<and> get_member ''type'' (Some msg) \<noteq> Some (JStr ''players'')
     \<and> get_member ''type'' (Some msg) \<noteq> Some (JStr ''action'') \<longrightarrow>
       fst (snd (handleMessage env message b)) = b
       \<and> invocations (snd (snd (handleMessage env message b))) = []
       \<and> notifications (snd (snd (handleMessage env message b))) = []
       \<and> sent_messages (snd (snd (handleMessage env message b))) = []
       \<and> (coercible (Some msg) \<longrightarrow> handleMessage env message b = (Returned, b, [])))
   \<and> (inert env \<longrightarrow>
       fst (snd (handleMessage env message b)) =
         (if frame_type env message = Some (JStr ''building'')
          then b\<lparr>buildingInfo := frame_data env message\<rparr>
          else if frame_type env message = Some (JStr ''players'')
          then b\<lparr>players := frame_data env message\<rparr>
          else b))"
proof (intro conjI impI)
  assume a: "json_parse env message = Some msg
     \<and> get_member ''type'' (Some msg) \<noteq> Some (JStr ''building'')
     \<and> get_member ''type'' (Some msg) \<noteq> Some (JStr ''players'')
     \<and> get_member ''type'' (Some msg) \<noteq> Some (JStr ''action'')"
  then have body: "handleMessage_try env message b =
           (if coercible (Some msg) then (Returned, b, []) else (Threw TypeError, b, []))"
    by (simp add: handleMessage_try_other)
  show "fst (snd (handleMessage env message b)) = b"
    by (simp add: handleMessage_state body)
  show "invocations (snd (snd (handleMessage env message b))) = []"
    by (simp add: handleMessage_effects body)
  show "notifications (snd (snd (handleMessage env message b))) = []"
    by (simp add: handleMessage_effects body)
  show "sent_messages (snd (snd (handleMessage env message b))) = []"
    by (simp add: handleMessage_effects body)
  show "handleMessage env message b = (Returned, b, [])" if "coercible (Some msg)"
    using that by (simp add: handleMessage_def body)
next
  assume "inert env"
  then show "fst (snd (handleMessage env message b)) =
         (if frame_type env message = Some (JStr ''building'')
          then b\<lparr>buildingInfo := frame_data env message\<rparr>
          else if frame_type env message = Some (JStr ''players'')
          then b\<lparr>players := frame_data env message\<rparr>
          else b)"
    by (rule handleMessage_inert_state)
qed

text \<open>
  The theorem at a chat frame and at a players frame.
\<close>

theorem unknown_type_witness:
  "json_parse example_env frame_chat =
      Some (JObj [(''type'', JStr ''chat''), (''data'', JStr ''hello'')])
   \<and> handleMessage example_env frame_chat example_building = (Returned, example_building, [])
   \<and> inert example_env
   \<and> frame_type example_env frame_players = Some (JStr ''players'')
   \<and> fst (snd (handleMessage example_env frame_players example_building)) =
       example_building\<lparr>players := Some (JArr [JObj [(''name'', JStr ''A'')]])\<rparr>"
proof -
  let ?msg = "JObj [(''type'', JStr ''chat''), (''data'', JStr ''hello'')]"
  have parse: "json_parse example_env frame_chat = Some ?msg"
    by (simp add: example_defs)
  have type: "get_member ''type'' (Some ?msg) = Some (JStr ''chat'')"
    by simp
  have co: "coercible (Some ?msg)"
    by (simp add: coercible_def)
  have inert: "inert example_env"
    by (simp add: inert_def example_env_def example_call_def)
  have ft: "frame_type example_env frame_players = Some (JStr ''players'')"
    by (simp add: frame_type_def example_defs)
  have fd: "frame_data example_env frame_players = Some (JArr [JObj [(''name'', JStr ''A'')]])"
    by (simp add: frame_data_def example_defs)
  from unknown_type_ignored [of example_env frame_chat ?msg example_building] parse type co
  have "handleMessage example_env frame_chat example_building = (Returned, example_building, [])"
    by simp
  moreover from unknown_type_ignored [of example_env frame_players ?msg example_building] inert
  have "fst (snd (handleMessage example_env frame_players example_building)) =
       example_building\<lparr>players := Some (JArr [JObj [(''name'', JStr ''A'')]])\<rparr>"
    by (simp add: ft fd)
  ultimately show ?thesis
    using parse inert ft by simp
qed

section \<open>Construction\<close>

text \<open>
  Claim C9. Construction treats every falsy configuration value as absent: a reconnect
  interval of 0 (or NaN, or none) yields 5000, and an empty endpoint (or none) yields
  the default endpoint. After construction the registry has no property and the plain
  prototype, the roster is the empty array, the building record is the empty object,
  and there is no connection: registrations leave it absent, and \<open>run\<close> makes the
  first one.
\<close>

theorem constructor_defaults:
  "reconnectInterval (constructor env (options\<lparr>opt_reconnectInterval := Some (Num 0)\<rparr>)) = Num 5000
   \<and> reconnectInterval (constructor env (options\<lparr>opt_reconnectInterval := Some NaN\<rparr>)) = Num 5000
   \<and> reconnectInterval (constructor env (options\<lparr>opt_reconnectInterval := None\<rparr>)) = Num 5000
   \<and> wsEndpoint (constructor env (options\<lparr>opt_wsEndpoint := Some []\<rparr>)) = DEFAULT_WS_ENDPOINT env
   \<and> wsEndpoint (constructor env (options\<lparr>opt_wsEndpoint := None\<rparr>)) = DEFAULT_WS_ENDPOINT env
   \<and> reconnectInterval (constructor env options) =
       (case opt_reconnectInterval options of
          None \<Rightarrow> Num 5000
        | Some n \<Rightarrow> if n = Num 0 \<or> n = NaN then Num 5000 else n)
   \<and> wsEndpoint (constructor env options) =
       (case opt_wsEndpoint options of
          None \<Rightarrow> DEFAULT_WS_ENDPOINT env
        | Some s \<Rightarrow> if s = [] then DEFAULT_WS_ENDPOINT env else s)
   \<and> own (actionHandlers (constructor env options)) = []
   \<and> proto (actionHandlers (constructor env options)) = None
   \<and> obj_keys (actionHandlers (constructor env options)) = []
   \<and> players (constructor env options) = Some (JArr [])
   \<and> buildingInfo (constructor env options) = Some (JObj [])
   \<and> ws (constructor env options) = None
   \<and> ws (register_all regs (constructor env options)) = None
   \<and> ws (fst (run env sock (register_all regs (constructor env options)))) = Some sock
   \<and> opened_sockets (snd (run env sock (register_all regs (constructor env options)))) = [sock]"
  by (simp add: constructor_def number_or_def string_or_def falsy_number_def empty_obj_def
      obj_keys_def obj_entries_def ws_register_all run_def connect_def
      split: option.splits)

section \<open>A registered function that throws\<close>

text \<open>
  Claim C10. When the function called for an \<^verbatim>\<open>action\<close> frame (one whose action name
  has a property key under which the lookup finds a registered entry whose function takes
  two or three parameters) throws, \<open>handleMessage\<close>
  returns normally, having logged the error after the call; the building is exactly the
  one in which the function threw, so the catch clause changes neither cache nor the
  registry, and the building is the one before the frame when the caller's code assigns
  nothing. A players frame that follows is routed as ever.
\<close>

theorem handler_exception_caught:
  assumes "json_parse env message = Some msg"
    and "get_member ''type'' (Some msg) = Some (JStr ''action'')"
    and "get_member ''data'' (Some msg) = data"
    and "coercible data"
    and "to_property_key env (get_member ''action'' data) = Some key"
    and "get_handler (actionHandlers b) key = HEntry e"
    and "ctx = new_ActionContext (get_member ''playerID'' data) (get_member ''playerName'' data)
                 (ws b) (get_member ''actionID'' data) (get_member ''action'' data)"
    and "func_length (func e) = 2 \<and> args = [get_member ''payload'' data]
         \<or> func_length (func e) = 3
            \<and> args = [get_member ''payload'' data, get_member ''payment'' data]"
    and "call_function env (func e) ctx args b = (Threw x, b1)"
  shows "handleMessage env message b =
           (Returned, b1,
            [Invoke (func e) ctx args, ConsoleError ''Failed to handle message:'' x])
       \<and> (inert env \<longrightarrow> fst (snd (handleMessage env message b)) = b)
       \<and> (json_parse env next = Some msg'
            \<and> get_member ''type'' (Some msg') = Some (JStr ''players'') \<longrightarrow>
            notifications (snd (snd (handleMessage env next
                (fst (snd (handleMessage env message b)))))) =
              [(''players'', [get_member ''data'' (Some msg')])]
            \<and> fst (snd (handleMessage env next (fst (snd (handleMessage env message b))))) =
                snd (emit_listeners env ''players'' [get_member ''data'' (Some msg')]
                      (b1\<lparr>players := get_member ''data'' (Some msg')\<rparr>)))"
proof -
  have main: "handleMessage env message b =
           (Returned, b1,
            [Invoke (func e) ctx args, ConsoleError ''Failed to handle message:'' x])"
    using assms(8)
  proof
    assume "func_length (func e) = 2 \<and> args = [get_member ''payload'' data]"
    then show ?thesis
      using handleMessage_entry(1) [OF assms(1-7)] assms(9) by simp
  next
    assume "func_length (func e) = 3
            \<and> args = [get_member ''payload'' data, get_member ''payment'' data]"
    then show ?thesis
      using handleMessage_entry(2) [OF assms(1-7)] assms(9) by simp
  qed
  have inert: "fst (snd (handleMessage env message b)) = b" if "inert env"
    using inert_call [OF that, of "func e" ctx args b] assms(9) by (simp add: main)
  have later: "notifications (snd (snd (handleMessage env next
                (fst (snd (handleMessage env message b)))))) =
              [(''players'', [get_member ''data'' (Some msg')])]
            \<and> fst (snd (handleMessage env next (fst (snd (handleMessage env message b))))) =
                snd (emit_listeners env ''players'' [get_member ''data'' (Some msg')]
                      (b1\<lparr>players := get_member ''data'' (Some msg')\<rparr>))"
    if "json_parse env next = Some msg'
            \<and> get_member ''type'' (Some msg') = Some (JStr ''players'')"
  proof -
    from that have p: "json_parse env next = Some msg'"
      and t: "get_member ''type'' (Some msg') = Some (JStr ''players'')"
      by simp_all
    show ?thesis
      using handleMessage_players(1,3) [OF p t refl, of b1] by (simp add: main)
  qed
  from main inert later show ?thesis by blast
qed

text \<open>
  The theorem at the example's failing function, followed by a players frame.
\<close>

theorem handler_exception_witness:
  "json_parse example_env frame_fail =
     Some (JObj [(''type'', JStr ''action''),
                 (''data'', JObj [(''action'', JStr ''fail''), (''actionID'', JStr ''x4'')])])
   \<and> to_property_key example_env (Some (JStr ''fail'')) = Some ''fail''
   \<and> get_handler (actionHandlers example_building) ''fail'' =
       HEntry \<lparr>func = failing_handler, payloadDescription = [], paymentDescription = []\<rparr>
   \<and> func_length failing_handler = 2
   \<and> call_function example_env failing_handler
        (new_ActionContext None None None (Some (JStr ''x4'')) (Some (JStr ''fail'')))
        [None] example_building = (Threw (Thrown ''boom''), example_building)
   \<and> handleMessage example_env frame_fail example_building =
       (Returned, example_building,
        [Invoke failing_handler
           (new_ActionContext None None None (Some (JStr ''x4'')) (Some (JStr ''fail''))) [None],
         ConsoleError ''Failed to handle message:'' (Thrown ''boom'')])
   \<and> json_parse example_env frame_players =
       Some (JObj [(''type'', JStr ''players''), (''data'', JArr [JObj [(''name'', JStr ''A'')]])])
   \<and> notifications (snd (snd (handleMessage example_env frame_players
         (fst (snd (handleMessage example_env frame_fail example_building)))))) =
       [(''players'', [Some (JArr [JObj [(''name'', JStr ''A'')]])])]"
proof -
  let ?data = "JObj [(''action'', JStr ''fail''), (''actionID'', JStr ''x4'')]"
  let ?msg = "JObj [(''type'', JStr ''action''), (''data'', ?data)]"
  let ?e = "\<lparr>func = failing_handler, payloadDescription = [], paymentDescription = []\<rparr>"
  let ?ctx = "new_ActionContext None None None (Some (JStr ''x4'')) (Some (JStr ''fail''))"
  let ?next = "JObj [(''type'', JStr ''players''), (''data'', JArr [JObj [(''name'', JStr ''A'')]])]"
  have parse: "json_parse example_env frame_fail = Some ?msg"
    by (simp add: example_defs)
  have type: "get_member ''type'' (Some ?msg) = Some (JStr ''action'')"
    by simp
  have data: "get_member ''data'' (Some ?msg) = Some ?data"
    by simp
  have co: "coercible (Some ?data)"
    by (simp add: coercible_def)
  have key: "to_property_key example_env (get_member ''action'' (Some ?data)) = Some ''fail''"
    by (simp add: to_property_key_def)
  have reg: "get_handler (actionHandlers example_building) ''fail'' = HEntry ?e"
    by (simp add: example_registry get_handler_def)
  have ctx: "?ctx = new_ActionContext (get_member ''playerID'' (Some ?data))
               (get_member ''playerName'' (Some ?data)) (ws example_building)
               (get_member ''actionID'' (Some ?data)) (get_member ''action'' (Some ?data))"
    by (simp add: example_defs)
  have len: "func_length (func ?e) = 2 \<and> [None] = [get_member ''payload'' (Some ?data)]
         \<or> func_length (func ?e) = 3
            \<and> [None] = [get_member ''payload'' (Some ?data), get_member ''payment'' (Some ?data)]"
    by (simp add: failing_handler_def)
  have call: "call_function example_env (func ?e) ?ctx [None] example_building =
                (Threw (Thrown ''boom''), example_building)"
    by (simp add: example_env_def example_call_def failing_handler_def)
  have good: "json_parse example_env frame_players = Some ?next"
    by (simp add: example_defs)
  have ntype: "get_member ''type'' (Some ?next) = Some (JStr ''players'')"
    by simp
  note t = handler_exception_caught [OF parse type data co key reg ctx len call, of frame_players ?next]
  from t have caught: "handleMessage example_env frame_fail example_building =
       (Returned, example_building,
        [Invoke failing_handler ?ctx [None],
         ConsoleError ''Failed to handle message:'' (Thrown ''boom'')])"
    by simp
  from t good ntype
  have later: "notifications (snd (snd (handleMessage example_env frame_players
         (fst (snd (handleMessage example_env frame_fail example_building)))))) =
       [(''players'', [get_member ''data'' (Some ?next)])]"
    by blast
  have "func_length failing_handler = 2"
    by (simp add: failing_handler_def)
  with reg key show ?thesis
    using parse call caught good later by simp
qed

end
